theory Spec2Isabelle
  imports Complex_Main "HOL-Library.Product_Lexorder"
begin

section \<open>Exceptions\<close>

text \<open>
  Python exceptions are values.  Every \<^verbatim>\<open>raise\<close> of the modelled code is a branch that
  returns \<open>Inl e\<close>; \<^verbatim>\<open>str(e)\<close> is \<open>exn_str e\<close>.
\<close>

datatype exn =
    ValueError string
  | ZeroDivisionError
  | Timeout string
  | RequestException string
  | IntegrityError string
  | AttributeError string
  | Error string

fun exn_str :: "exn \<Rightarrow> string" where
  "exn_str (ValueError m) = m"
| "exn_str ZeroDivisionError = ''integer modulo by zero''"
| "exn_str (Timeout m) = m"
| "exn_str (RequestException m) = m"
| "exn_str (IntegrityError m) = m"
| "exn_str (AttributeError m) = m"
| "exn_str (Error m) = m"

text \<open>\<^verbatim>\<open>try: body  except Exception as e: handler(e)\<close>, and sequencing of steps that may raise.\<close>

definition try_except :: "exn + 'a \<Rightarrow> (exn \<Rightarrow> exn + 'a) \<Rightarrow> exn + 'a" where
  "try_except body handler = (case body of Inl e \<Rightarrow> handler e | Inr v \<Rightarrow> Inr v)"

definition and_then :: "exn + 'a \<Rightarrow> ('a \<Rightarrow> exn + 'b) \<Rightarrow> exn + 'b" where
  "and_then step rest = (case step of Inl e \<Rightarrow> Inl e | Inr v \<Rightarrow> rest v)"

section \<open>Detectors and the model manager (utils/model\_manager.py)\<close>

text \<open>
  One entry of \<^verbatim>\<open>results\<close> as the processing loops read it: \<^verbatim>\<open>r.boxes\<close> is
  \<^verbatim>\<open>None\<close> or carries the list \<^verbatim>\<open>r.boxes.conf.tolist()\<close>.
\<close>

type_synonym yolo_result = "real list option"

text \<open>
  A detector (detectors/base\_detector.py).  The trained model is outside the repository:
  \<open>predict_video_frame\<close> is the detector's answer on a frame, either the exception it
  raises or the annotated frame with the results.
\<close>

record 'f detector =
  det_name :: string
  model_path :: string
  predict_video_frame :: "'f \<Rightarrow> real \<Rightarrow> real \<Rightarrow> int \<Rightarrow> exn + ('f \<times> yolo_result list)"

record detector_config =
  conf_threshold :: real
  iou_threshold :: real
  image_size :: int

record 'f model_manager =
  detectors :: "string \<rightharpoonup> 'f detector"
  active_detector_key :: string
  detector_configs :: "string \<rightharpoonup> detector_config"

text \<open>\<^verbatim>\<open>ModelManager.__init__\<close>; the four detector objects are passed in.\<close>

definition model_manager_init ::
  "'f detector \<Rightarrow> 'f detector \<Rightarrow> 'f detector \<Rightarrow> 'f detector \<Rightarrow> 'f model_manager" where
  "model_manager_init fire fall violence choking =
     \<lparr> detectors = [''fire_smoke'' \<mapsto> fire, ''fall'' \<mapsto> fall,
                      ''violence'' \<mapsto> violence, ''choking'' \<mapsto> choking],
       active_detector_key = ''fire_smoke'',
       detector_configs =
         [''fire_smoke'' \<mapsto> \<lparr>conf_threshold = 0.25, iou_threshold = 0.45, image_size = 640\<rparr>,
          ''fall'' \<mapsto> \<lparr>conf_threshold = 0.4, iou_threshold = 0.37, image_size = 512\<rparr>,
          ''violence'' \<mapsto> \<lparr>conf_threshold = 0.35, iou_threshold = 0.35, image_size = 736\<rparr>,
          ''choking'' \<mapsto> \<lparr>conf_threshold = 0.25, iou_threshold = 0.30, image_size = 640\<rparr>] \<rparr>"

definition get_detector :: "'f model_manager \<Rightarrow> string option \<Rightarrow> exn + 'f detector" where
  "get_detector mm detector_key =
     (let k = (case detector_key of None \<Rightarrow> active_detector_key mm | Some k \<Rightarrow> k)
      in case detectors mm k of
           None \<Rightarrow> Inl (ValueError (''Unknown detector: '' @ k))
         | Some d \<Rightarrow> Inr d)"

text \<open>
  \<^verbatim>\<open>set_active_detector\<close> mutates the manager: the model returns what the call returns or
  raises, together with the manager after the call.
\<close>

definition set_active_detector ::
  "'f model_manager \<Rightarrow> string \<Rightarrow> (exn + 'f detector) \<times> 'f model_manager" where
  "set_active_detector mm detector_key =
     (case detectors mm detector_key of
        None \<Rightarrow> (Inl (ValueError (''Unknown detector: '' @ detector_key)), mm)
      | Some _ \<Rightarrow>
          (let mm' = mm\<lparr>active_detector_key := detector_key\<rparr>
           in (get_detector mm' None, mm')))"

definition get_detector_config :: "'f model_manager \<Rightarrow> string \<Rightarrow> detector_config" where
  "get_detector_config mm detector_key =
     (case detector_configs mm detector_key of
        None \<Rightarrow> \<lparr>conf_threshold = 0.25, iou_threshold = 0.45, image_size = 640\<rparr>
      | Some c \<Rightarrow> c)"

section \<open>Records of the persistence layer\<close>

text \<open>
  cameras/models.py, the fields the code reads: \<^verbatim>\<open>id\<close>, \<^verbatim>\<open>name\<close>,
  \<^verbatim>\<open>location\<close>, \<^verbatim>\<open>camera_type\<close>, \<^verbatim>\<open>stream_url\<close>, \<^verbatim>\<open>username\<close>,
  \<^verbatim>\<open>password\<close>, \<^verbatim>\<open>status\<close>, \<^verbatim>\<open>frame_rate\<close> and \<^verbatim>\<open>user\<close>.
  \<^verbatim>\<open>location\<close>, \<^verbatim>\<open>username\<close> and \<^verbatim>\<open>password\<close> may be \<^verbatim>\<open>None\<close>;
  \<^verbatim>\<open>frame_rate\<close> is an integer field without bounds.
\<close>

record camera =
  cam_id :: nat
  cam_name :: string
  cam_location :: "string option"
  camera_type :: string
  stream_url :: string
  username :: "string option"
  password :: "string option"
  cam_status :: string
  frame_rate :: int
  cam_user :: nat

text \<open>alerts/models.py, the fields the pipeline writes.\<close>

record alert =
  title :: string
  description :: string
  alert_type :: string
  status :: string
  severity :: string
  confidence :: real
  camera :: "nat option"
  location :: "string option"
  video_file :: string
  thumbnail :: "string option"

text \<open>
  \<^verbatim>\<open>Alert.objects.create\<close> with the keyword arguments the processor passes; the
  other fields take the defaults of the model (\<^verbatim>\<open>status='new'\<close>,
  \<^verbatim>\<open>confidence=0.0\<close>).  \<^verbatim>\<open>Alert.camera\<close> is a foreign key that may not be null
  (alerts/models.py, line 51): without a camera the row cannot be inserted and the call
  raises \<^verbatim>\<open>IntegrityError\<close>.
\<close>

definition alert_create ::
  "string \<Rightarrow> string \<Rightarrow> string \<Rightarrow> string \<Rightarrow> nat option \<Rightarrow> string option \<Rightarrow> string \<Rightarrow>
     exn + alert" where
  "alert_create t d ty sev cam loc vf =
     (case cam of
        None \<Rightarrow> Inl (IntegrityError ''NOT NULL constraint failed: alerts_alert.camera_id'')
      | Some c \<Rightarrow>
          Inr \<lparr> title = t, description = d, alert_type = ty, status = ''new'', severity = sev,
                confidence = 0, camera = Some c, location = loc, video_file = vf,
                thumbnail = None \<rparr>)"

section \<open>The video processor (utils/video\_processor.py)\<close>

text \<open>
  What the processor takes from outside the repository: OpenCV, the clock, the file
  names it draws from the time and a UUID, and Python's string formatting.
  \<open>video_capture p\<close> is \<open>None\<close> when \<^verbatim>\<open>cap.isOpened()\<close> is false after
  opening \<open>p\<close>, and otherwise the frames that \<^verbatim>\<open>cap.read()\<close> delivers before it
  first returns no frame.  \<open>elapsed n\<close> is \<^verbatim>\<open>time.time() - start_time\<close> as measured
  after frame \<open>n\<close>.  \<open>create_thumbnail\<close> is the value \<^verbatim>\<open>_create_thumbnail\<close>
  leaves in \<^verbatim>\<open>alert.thumbnail\<close> (it catches its own exceptions).
\<close>

record 'f world =
  video_capture :: "string \<Rightarrow> 'f list option"
  output_dir :: string
  stamp :: string
  elapsed :: "int \<Rightarrow> real"
  create_thumbnail :: "string \<Rightarrow> alert \<Rightarrow> int \<Rightarrow> string option"
  lower :: "string \<Rightarrow> string"
  str_int :: "int \<Rightarrow> string"
  fmt_2f :: "real \<Rightarrow> string"

text \<open>\<^verbatim>\<open>os.path.join\<close> of two components (POSIX).\<close>

definition path_join :: "string \<Rightarrow> string \<Rightarrow> string" where
  "path_join a b =
     (if b \<noteq> [] \<and> hd b = CHR ''/'' then b
      else if a = [] \<or> last a = CHR ''/'' then a @ b
      else a @ ''/'' @ b)"

text \<open>The local variables of a processing run, with the alert and the output video.\<close>

record 'f run_state =
  alert :: alert
  out :: "'f list"
  frame_count :: int
  detection_count :: int
  detection_frames :: "int list"
  detection_confidences :: "real list"

definition run_init :: "alert \<Rightarrow> 'f run_state" where
  "run_init a =
     \<lparr> alert = a, out = [], frame_count = 0, detection_count = 0,
       detection_frames = [], detection_confidences = [] \<rparr>"

text \<open>The severity ladder of lines 131--139 (and 295--303).\<close>

definition severity_for_confidence :: "real \<Rightarrow> string" where
  "severity_for_confidence c =
     (if c \<ge> 0.9 then ''critical''
      else if c \<ge> 0.7 then ''high''
      else if c \<ge> 0.5 then ''medium''
      else ''low'')"

text \<open>Lines 129--141: store the confidence and the severity, and save both.\<close>

definition update_alert :: "real \<Rightarrow> alert \<Rightarrow> alert" where
  "update_alert c a = a\<lparr>confidence := c, severity := severity_for_confidence c\<rparr>"

text \<open>
  The loop \<^verbatim>\<open>for r in results\<close> of lines 110--122.  The pair is
  \<^verbatim>\<open>(has_detection, confidence)\<close>.
\<close>

fun check_results ::
  "real \<Rightarrow> yolo_result list \<Rightarrow> (bool \<times> real) \<times> 'f run_state \<Rightarrow> (bool \<times> real) \<times> 'f run_state" where
  "check_results thr [] acc = acc"
| "check_results thr (r # rs) ((has, c), st) =
     (case r of
        None \<Rightarrow> check_results thr rs ((has, c), st)
      | Some confidences \<Rightarrow>
          if confidences \<noteq> [] \<and> Max (set confidences) \<ge> thr
          then check_results thr rs
                 ((True, max c (Max (set confidences))),
                  st\<lparr> detection_frames := detection_frames st @ [frame_count st],
                      detection_confidences := detection_confidences st @ [Max (set confidences)],
                      detection_count := detection_count st + 1 \<rparr>)
          else check_results thr rs ((has, c), st))"

text \<open>
  The \<^verbatim>\<open>try\<close> block of a scored frame, lines 100--146: when the detector raises, the
  original frame is written and nothing else changes.
\<close>

definition score_frame ::
  "'f detector \<Rightarrow> real \<Rightarrow> real \<Rightarrow> int \<Rightarrow> 'f \<Rightarrow> 'f run_state \<Rightarrow> 'f run_state" where
  "score_frame det thr iou sz frame st =
     (case predict_video_frame det frame thr iou sz of
        Inl e \<Rightarrow> st\<lparr>out := out st @ [frame]\<rparr>
      | Inr (annotated_frame, results) \<Rightarrow>
          (case check_results thr results ((False, 0), st) of
             ((has_detection, c), st1) \<Rightarrow>
               (let st2 = st1\<lparr>out := out st1 @ [annotated_frame]\<rparr>
                in if has_detection \<and> c > confidence (alert st2)
                   then st2\<lparr>alert := update_alert c (alert st2)\<rparr>
                   else st2)))"

text \<open>
  The body of both frame loops after a successful read, lines 96--149 and 260--313; the
  two differ in the stride only.  \<^verbatim>\<open>frame_count % 0\<close> raises.
\<close>

definition handle_frame ::
  "'f detector \<Rightarrow> real \<Rightarrow> real \<Rightarrow> int \<Rightarrow> int \<Rightarrow> 'f \<Rightarrow> 'f run_state \<Rightarrow> exn + 'f run_state" where
  "handle_frame det thr iou sz stride frame st =
     (let st1 = st\<lparr>frame_count := frame_count st + 1\<rparr>
      in if stride = 0 then Inl ZeroDivisionError
         else if frame_count st1 mod stride = 0
              then Inr (score_frame det thr iou sz frame st1)
              else Inr (st1\<lparr>out := out st1 @ [frame]\<rparr>))"

text \<open>
  The loop of \<^verbatim>\<open>process_video\<close>, lines 91--149: every fifth frame is scored.  When
  an exception leaves the loop the local variables are gone; what remains is the alert
  as it was last saved, which is returned with the exception.
\<close>

fun video_loop ::
  "'f detector \<Rightarrow> real \<Rightarrow> real \<Rightarrow> int \<Rightarrow> 'f list \<Rightarrow> 'f run_state \<Rightarrow>
     (exn \<times> alert) + 'f run_state" where
  "video_loop det thr iou sz [] st = Inr st"
| "video_loop det thr iou sz (frame # frames) st =
     (case handle_frame det thr iou sz 5 frame st of
        Inl e \<Rightarrow> Inl (e, alert st)
      | Inr st' \<Rightarrow> video_loop det thr iou sz frames st')"

text \<open>
  The loop of \<^verbatim>\<open>process_camera_stream\<close>, lines 255--318: the stride is the camera's
  \<^verbatim>\<open>frame_rate\<close>, and the loop leaves after a frame when the time or the frame
  limit is reached.
\<close>

fun stream_loop ::
  "'f detector \<Rightarrow> real \<Rightarrow> real \<Rightarrow> int \<Rightarrow> int \<Rightarrow> (int \<Rightarrow> real) \<Rightarrow> real \<Rightarrow> int \<Rightarrow>
     'f list \<Rightarrow> 'f run_state \<Rightarrow> (exn \<times> alert) + 'f run_state" where
  "stream_loop det thr iou sz stride el duration frame_limit [] st = Inr st"
| "stream_loop det thr iou sz stride el duration frame_limit (frame # frames) st =
     (case handle_frame det thr iou sz stride frame st of
        Inl e \<Rightarrow> Inl (e, alert st)
      | Inr st' \<Rightarrow>
          if el (frame_count st') \<ge> duration \<or> frame_count st' \<ge> frame_limit
          then Inr st'
          else stream_loop det thr iou sz stride el duration frame_limit frames st')"

text \<open>
  \<^verbatim>\<open>detection_confidences.index(max(detection_confidences))\<close>: the first position of
  the largest entry.
\<close>

definition best_frame_idx :: "real list \<Rightarrow> nat" where
  "best_frame_idx cs = length (takeWhile (\<lambda>c. c \<noteq> Max (set cs)) cs)"

text \<open>
  After the loop, lines 155--175 and 324--344.  \<open>src\<close> is the video the thumbnail is cut
  from, \<open>where\<close> ends the sentence of a run without detection.
\<close>

definition finish_run :: "'f world \<Rightarrow> 'f detector \<Rightarrow> string \<Rightarrow> string \<Rightarrow> 'f run_state \<Rightarrow> alert" where
  "finish_run w det src where st =
     (if detection_count st > 0
      then
        (let a1 = (alert st)\<lparr>description :=
                     ''Detected '' @ lower w (det_name det) @ '' in '' @
                     str_int w (detection_count st) @ '' frames. '' @
                     ''Average confidence: '' @
                     fmt_2f w (sum_list (detection_confidences st) /
                               real (length (detection_confidences st))) @ ''.''\<rparr>
         in if detection_frames st \<noteq> []
            then a1\<lparr>thumbnail :=
                     create_thumbnail w src a1
                       (detection_frames st ! best_frame_idx (detection_confidences st))\<rparr>
            else a1)
      else (alert st)\<lparr>status := ''false_positive'',
                       description := ''No '' @ lower w (det_name det) @ '' detected in '' @ where\<rparr>)"

text \<open>
  \<^verbatim>\<open>process_video\<close>.  \<open>cams\<close> is the camera table.  The result is the exception the
  call raises, or the output path with the alert.  Without a camera (no
  \<^verbatim>\<open>camera_id\<close>, or one that is not in the table) the alert cannot be created.
\<close>

definition process_video ::
  "'f world \<Rightarrow> 'f model_manager \<Rightarrow> (nat \<rightharpoonup> camera) \<Rightarrow>
     string \<Rightarrow> string \<Rightarrow> real \<Rightarrow> real \<Rightarrow> int \<Rightarrow> nat option \<Rightarrow> exn + (string \<times> alert)" where
  "process_video w mm cams video_path detector_key thr iou sz camera_id =
     (case get_detector mm (Some detector_key) of
        Inl e \<Rightarrow> Inl e
      | Inr det \<Rightarrow>
          (case video_capture w video_path of
             None \<Rightarrow> Inl (ValueError (''Failed to open video file: '' @ video_path))
           | Some frames \<Rightarrow>
               (let video_filename = detector_key @ ''_'' @ stamp w @ ''.mp4'';
                    output_path = path_join (output_dir w) video_filename;
                    cam = (case camera_id of
                             None \<Rightarrow> None
                           | Some i \<Rightarrow> if i = 0 then None else cams i)
                in case alert_create
                          (det_name det @ '' Detection'')
                          (''Automatic detection of '' @ lower w (det_name det) @ '' in video.'')
                          detector_key ''medium''
                          (map_option cam_id cam)
                          (case cam of None \<Rightarrow> None | Some c \<Rightarrow> cam_location c)
                          (''alerts/videos/'' @ video_filename) of
                     Inl e \<Rightarrow> Inl e
                   | Inr a0 \<Rightarrow>
                       (case video_loop det thr iou sz frames (run_init a0) of
                          Inl (e, a) \<Rightarrow> Inl e
                        | Inr st \<Rightarrow>
                            Inr (output_path, finish_run w det video_path ''the video.'' st)))))"

text \<open>\<^verbatim>\<open>Camera.get_stream_url\<close>, cameras/models.py.\<close>

fun split_scheme :: "string \<Rightarrow> string \<Rightarrow> (string \<times> string) option" where
  "split_scheme pre [] = None"
| "split_scheme pre (c # cs) =
     (if take 3 (c # cs) = ''://'' then Some (pre, drop 3 (c # cs))
      else split_scheme (pre @ [c]) cs)"

definition truthy :: "string option \<Rightarrow> bool" where
  "truthy s = (case s of None \<Rightarrow> False | Some v \<Rightarrow> v \<noteq> [])"

definition get_stream_url :: "camera \<Rightarrow> string" where
  "get_stream_url cam =
     (if camera_type cam = ''rtsp'' \<and> truthy (username cam) \<and> truthy (password cam)
      then (case split_scheme [] (stream_url cam) of
              Some (protocol, rest) \<Rightarrow>
                protocol @ ''://'' @ the (username cam) @ '':'' @ the (password cam) @ ''@'' @ rest
            | None \<Rightarrow> stream_url cam)
      else stream_url cam)"

text \<open>
  \<^verbatim>\<open>process_camera_stream\<close>.  With the result the call leaves the camera table, since
  it writes the camera's status, and the row of the alert it created, if it came that
  far, as it was last saved: an exception that leaves the loop leaves the row behind.
\<close>

definition process_camera_stream ::
  "'f world \<Rightarrow> 'f model_manager \<Rightarrow> (nat \<rightharpoonup> camera) \<Rightarrow>
     nat \<Rightarrow> string \<Rightarrow> real \<Rightarrow> int \<Rightarrow>
     (exn + (string \<times> alert)) \<times> (nat \<rightharpoonup> camera) \<times> alert option" where
  "process_camera_stream w mm cams camera_id detector_key duration frame_limit =
     (case cams camera_id of
        None \<Rightarrow>
          (Inl (ValueError (''Camera with ID '' @ str_int w (int camera_id) @ '' not found.'')),
           cams, None)
      | Some cam \<Rightarrow>
          (case get_detector mm (Some detector_key) of
             Inl e \<Rightarrow> (Inl e, cams, None)
           | Inr det \<Rightarrow>
               (let config = get_detector_config mm detector_key;
                    thr = conf_threshold config;
                    iou = iou_threshold config;
                    sz = image_size config;
                    surl = get_stream_url cam
                in case video_capture w surl of
                     None \<Rightarrow>
                       (Inl (ValueError (''Failed to open camera stream: '' @ surl)),
                        cams(camera_id \<mapsto> cam\<lparr>cam_status := ''offline''\<rparr>), None)
                   | Some frames \<Rightarrow>
                       (let cam1 = cam\<lparr>cam_status := ''online''\<rparr>;
                            cams1 = cams(camera_id \<mapsto> cam1);
                            video_filename =
                              ''camera_'' @ str_int w (int camera_id) @ ''_'' @ detector_key @
                              ''_'' @ stamp w @ ''.mp4'';
                            output_path = path_join (output_dir w) video_filename
                        in case alert_create
                                  (det_name det @ '' Detection - '' @ cam_name cam1)
                                  (''Real-time detection of '' @ lower w (det_name det) @
                                   '' from camera '' @ cam_name cam1 @ ''.'')
                                  detector_key ''medium''
                                  (Some (cam_id cam1)) (cam_location cam1)
                                  (''alerts/videos/'' @ video_filename) of
                             Inl e \<Rightarrow> (Inl e, cams1, None)
                           | Inr a0 \<Rightarrow>
                               (case stream_loop det thr iou sz (frame_rate cam1) (elapsed w)
                                       duration frame_limit frames (run_init a0) of
                                  Inl (e, a) \<Rightarrow> (Inl e, cams1, Some a)
                                | Inr st \<Rightarrow>
                                    (Inr (output_path,
                                          finish_run w det output_path ''the camera stream.'' st),
                                     cams1,
                                     Some (finish_run w det output_path
                                             ''the camera stream.'' st)))))))"

section \<open>The camera manager (utils/camera\_manager.py)\<close>

text \<open>The values of the result dictionaries, and the dictionaries as maps from keys.\<close>

datatype 'f pyval = PBool bool | PStr string | PFrame 'f | PNone

type_synonym 'f pydict = "string \<rightharpoonup> 'f pyval"

text \<open>
  An opened \<^verbatim>\<open>cv2.VideoCapture\<close>: whether \<^verbatim>\<open>isOpened()\<close> holds, what
  \<^verbatim>\<open>grab()\<close> returns, and what \<^verbatim>\<open>read()\<close> returns (\<open>None\<close> when \<^verbatim>\<open>ret\<close> is
  false).  An HTTP response with the fields the manager reads.
\<close>

record 'f capture =
  is_opened :: bool
  grab :: "exn + bool"
  read :: "exn + 'f option"

record response =
  status_code :: int
  content_type :: "string option"
  content :: string

text \<open>
  What the manager calls outside the repository; each call returns its value or the
  exception it raises.  \<open>save_camera\<close> is \<^verbatim>\<open>camera.save\<close> inside
  \<^verbatim>\<open>update_status\<close>, called with the camera as it is saved.
\<close>

record 'f cv_env =
  cv_open :: "string \<Rightarrow> exn + 'f capture"
  cv_open_device :: "int \<Rightarrow> exn + 'f capture"
  http_get :: "string \<Rightarrow> (string \<times> string) option \<Rightarrow> exn + response"
  imdecode :: "string \<Rightarrow> exn + 'f option"
  is_file :: "string \<Rightarrow> bool"
  media_root :: string
  str_of_int :: "int \<Rightarrow> string"
  save_camera :: "camera \<Rightarrow> exn option"

text \<open>
  The manager and the stream proxy read the address of a camera as \<^verbatim>\<open>camera.url\<close>.
  The model \<^verbatim>\<open>Camera\<close> declares no such attribute (the address is
  \<^verbatim>\<open>stream_url\<close>), so on a camera the read raises \<^verbatim>\<open>AttributeError\<close>.
\<close>

definition no_attribute_url :: string where
  "no_attribute_url = [CHR 0x27] @ ''Camera' object has no attribute 'url'' @ [CHR 0x27]"

definition camera_url :: "camera \<Rightarrow> exn + string" where
  "camera_url cam = Inl (AttributeError no_attribute_url)"

text \<open>
  Lines 258--271 (the same text at 473--486 and in utils/stream\_proxy.py): the URL with
  the credentials put in, when both are set and the URL has no \<^verbatim>\<open>@\<close>.
\<close>

definition url_with_auth :: "camera \<Rightarrow> exn + string" where
  "url_with_auth cam =
     and_then (camera_url cam) (\<lambda>url.
       Inr (if truthy (username cam) \<and> truthy (password cam) then
              (if CHR ''@'' \<notin> set url then
                 (case split_scheme [] url of
                    Some (protocol, rest) \<Rightarrow>
                      (let host = takeWhile (\<lambda>c. c \<noteq> CHR ''/'') rest;
                           path = drop 1 (dropWhile (\<lambda>c. c \<noteq> CHR ''/'') rest)
                       in protocol @ ''://'' @ the (username cam) @ '':'' @ the (password cam) @
                          ''@'' @ host @ ''/'' @ path)
                  | None \<Rightarrow> url)
               else url)
            else url))"

text \<open>\<^verbatim>\<open>str.isdigit\<close> and \<^verbatim>\<open>int\<close> on decimal digits; \<^verbatim>\<open>x in s\<close> on strings.\<close>

definition is_digit :: "char \<Rightarrow> bool" where
  "is_digit c = (c \<in> set ''0123456789'')"

definition isdigit :: "string \<Rightarrow> bool" where
  "isdigit s = (s \<noteq> [] \<and> list_all is_digit s)"

definition int_of_digits :: "string \<Rightarrow> int" where
  "int_of_digits s = foldl (\<lambda>n c. 10 * n + (int (of_char c) - 48)) 0 s"

fun contains :: "string \<Rightarrow> string \<Rightarrow> bool" where
  "contains sub [] = (sub = [])"
| "contains sub (c # cs) = (take (length sub) (c # cs) = sub \<or> contains sub cs)"

text \<open>Lines 346--348 (and 576--578): the device index of a local camera.\<close>

definition device_index :: "camera \<Rightarrow> exn + int" where
  "device_index cam =
     and_then (camera_url cam) (\<lambda>url.
       Inr (if url \<noteq> [] \<and> isdigit url then int_of_digits url else 0))"

text \<open>The two shapes of result: the connection checks return two keys, the captures three.\<close>

definition check_result :: "bool \<Rightarrow> string \<Rightarrow> 'f pydict" where
  "check_result ok msg = [''success'' \<mapsto> PBool ok, ''message'' \<mapsto> PStr msg]"

definition frame_result :: "bool \<Rightarrow> string \<Rightarrow> 'f pyval \<Rightarrow> 'f pydict" where
  "frame_result ok msg fr = [''success'' \<mapsto> PBool ok, ''message'' \<mapsto> PStr msg, ''frame'' \<mapsto> fr]"

text \<open>\<^verbatim>\<open>_verify_rtsp_connection\<close>, lines 252--300.\<close>

definition verify_rtsp_connection :: "'f cv_env \<Rightarrow> camera \<Rightarrow> exn + 'f pydict" where
  "verify_rtsp_connection env cam =
     try_except
       (and_then (url_with_auth cam) (\<lambda>url.
        and_then (cv_open env url) (\<lambda>cap.
        and_then (if is_opened cap then grab cap else Inr False) (\<lambda>success.
          if success then Inr (check_result True ''RTSP connection successful'')
          else Inr (check_result False ''Failed to connect to RTSP stream'')))))
       (\<lambda>e. Inr (check_result False (''RTSP connection error: '' @ exn_str e)))"

text \<open>\<^verbatim>\<open>_verify_http_connection\<close>, lines 302--338: two kinds of exception are caught.\<close>

definition http_auth :: "camera \<Rightarrow> (string \<times> string) option" where
  "http_auth cam =
     (if truthy (username cam) \<and> truthy (password cam)
      then Some (the (username cam), the (password cam)) else None)"

definition verify_http_connection :: "'f cv_env \<Rightarrow> camera \<Rightarrow> exn + 'f pydict" where
  "verify_http_connection env cam =
     (case and_then (camera_url cam) (\<lambda>url.
           and_then (http_get env url (http_auth cam)) (\<lambda>resp.
             (let ct = (case content_type resp of None \<Rightarrow> [] | Some c \<Rightarrow> c)
              in if status_code resp = 200 \<and> (contains ''image'' ct \<or> contains ''video'' ct)
                 then Inr (check_result True ''HTTP connection successful'')
                 else Inr (check_result False
                        (''HTTP connection failed with status '' @
                         str_of_int env (status_code resp)))))) of
        Inl (Timeout m) \<Rightarrow> Inr (check_result False ''HTTP connection timed out'')
      | Inl (RequestException m) \<Rightarrow> Inr (check_result False (''HTTP connection error: '' @ m))
      | Inl e \<Rightarrow> Inl e
      | Inr d \<Rightarrow> Inr d)"

text \<open>\<^verbatim>\<open>_verify_local_connection\<close>, lines 340--380.\<close>

definition verify_local_connection :: "'f cv_env \<Rightarrow> camera \<Rightarrow> exn + 'f pydict" where
  "verify_local_connection env cam =
     try_except
       (and_then (device_index cam) (\<lambda>idx.
        and_then (cv_open_device env idx) (\<lambda>cap.
          if \<not> is_opened cap
          then Inr (check_result False
                 (''Failed to open webcam at index '' @ str_of_int env idx))
          else and_then (read cap) (\<lambda>r.
                 case r of
                   Some frame \<Rightarrow> Inr (check_result True ''Local webcam connection successful'')
                 | None \<Rightarrow> Inr (check_result False ''Failed to read frame from webcam'')))))
       (\<lambda>e. Inr (check_result False (''Webcam connection error: '' @ exn_str e)))"

text \<open>\<^verbatim>\<open>_verify_file_connection\<close>, lines 382--431.\<close>

definition verify_file_connection :: "'f cv_env \<Rightarrow> camera \<Rightarrow> exn + 'f pydict" where
  "verify_file_connection env cam =
     try_except
       (and_then (camera_url cam) (\<lambda>url.
        if \<not> is_file env url \<and> \<not> is_file env (path_join (media_root env) url)
        then Inr (check_result False (''Video file not found: '' @ url))
        else
          (let file_path = (if is_file env url then url
                            else path_join (media_root env) url)
           in and_then (cv_open env file_path) (\<lambda>cap.
                if \<not> is_opened cap
                then Inr (check_result False (''Failed to open video file: '' @ file_path))
                else and_then (read cap) (\<lambda>r.
                       case r of
                         Some frame \<Rightarrow> Inr (check_result True ''Video file connection successful'')
                       | None \<Rightarrow> Inr (check_result False ''Failed to read frame from video file''))))))
       (\<lambda>e. Inr (check_result False (''Video file error: '' @ exn_str e)))"

text \<open>\<^verbatim>\<open>verify_camera_connection\<close>, lines 25--63.\<close>

definition verify_camera_connection :: "'f cv_env \<Rightarrow> camera \<Rightarrow> exn + 'f pydict" where
  "verify_camera_connection env cam =
     try_except
       (if camera_type cam = ''rtsp'' then verify_rtsp_connection env cam
        else if camera_type cam = ''http'' then verify_http_connection env cam
        else if camera_type cam = ''local'' then verify_local_connection env cam
        else if camera_type cam = ''file'' then verify_file_connection env cam
        else Inr (check_result False (''Unsupported camera type: '' @ camera_type cam)))
       (\<lambda>e. Inr (check_result False (''Connection error: '' @ exn_str e)))"

text \<open>
  \<^verbatim>\<open>Camera.update_status\<close>: the attribute is set, then the camera is saved.  When the
  save raises, the attribute stays set on the object; the pair is the exception, if any,
  and the object.
\<close>

definition update_status :: "'f cv_env \<Rightarrow> camera \<Rightarrow> string \<Rightarrow> exn option \<times> camera" where
  "update_status env cam st = (save_camera env (cam\<lparr>cam_status := st\<rparr>), cam\<lparr>cam_status := st\<rparr>)"

text \<open>
  The body of the loop of \<^verbatim>\<open>update_camera_statuses\<close>, lines 164--176, for one
  camera, and the loop.  \<^verbatim>\<open>result['success']\<close> raises when the key is missing.
\<close>

definition update_one_status :: "'f cv_env \<Rightarrow> camera \<Rightarrow> exn option \<times> camera" where
  "update_one_status env cam =
     (let attempt =
        (case verify_camera_connection env cam of
           Inl e \<Rightarrow> (Some e, cam)
         | Inr result \<Rightarrow>
             (case result ''success'' of
                None \<Rightarrow> (Some (Error ''KeyError''), cam)
              | Some v \<Rightarrow>
                  if v = PBool True
                  then (if cam_status cam \<noteq> ''online'' then update_status env cam ''online''
                        else (None, cam))
                  else (if cam_status cam = ''online'' then update_status env cam ''offline''
                        else (None, cam))))
      in case attempt of
           (None, cam') \<Rightarrow> (None, cam')
         | (Some e, cam') \<Rightarrow> update_status env cam' ''error'')"

fun update_camera_statuses :: "'f cv_env \<Rightarrow> camera list \<Rightarrow> exn option \<times> camera list" where
  "update_camera_statuses env [] = (None, [])"
| "update_camera_statuses env (cam # cams) =
     (case update_one_status env cam of
        (Some e, cam') \<Rightarrow> (Some e, cam' # cams)
      | (None, cam') \<Rightarrow>
          (case update_camera_statuses env cams of (r, cams') \<Rightarrow> (r, cam' # cams')))"

text \<open>\<^verbatim>\<open>_capture_rtsp_frame\<close>, lines 467--523.\<close>

definition capture_rtsp_frame :: "'f cv_env \<Rightarrow> camera \<Rightarrow> exn + 'f pydict" where
  "capture_rtsp_frame env cam =
     try_except
       (and_then (url_with_auth cam) (\<lambda>url.
        and_then (cv_open env url) (\<lambda>cap.
          if \<not> is_opened cap
          then Inr (frame_result False ''Failed to open RTSP stream'' PNone)
          else and_then (read cap) (\<lambda>r.
                 case r of
                   Some frame \<Rightarrow> Inr (frame_result True ''Frame captured successfully'' (PFrame frame))
                 | None \<Rightarrow> Inr (frame_result False ''Failed to read frame from RTSP stream'' PNone)))))
       (\<lambda>e. Inr (frame_result False (''RTSP frame capture error: '' @ exn_str e) PNone))"

text \<open>\<^verbatim>\<open>_capture_http_frame\<close>, lines 525--568.\<close>

definition capture_http_frame :: "'f cv_env \<Rightarrow> camera \<Rightarrow> exn + 'f pydict" where
  "capture_http_frame env cam =
     try_except
       (and_then (camera_url cam) (\<lambda>url.
        and_then (http_get env url (http_auth cam)) (\<lambda>resp.
          if status_code resp \<noteq> 200
          then Inr (frame_result False
                 (''HTTP request failed with status '' @ str_of_int env (status_code resp)) PNone)
          else and_then (imdecode env (content resp)) (\<lambda>r.
                 case r of
                   None \<Rightarrow> Inr (frame_result False ''Failed to decode image from HTTP response'' PNone)
                 | Some frame \<Rightarrow>
                     Inr (frame_result True ''Frame captured successfully'' (PFrame frame))))))
       (\<lambda>e. Inr (frame_result False (''HTTP frame capture error: '' @ exn_str e) PNone))"

text \<open>\<^verbatim>\<open>_capture_local_frame\<close>, lines 570--612.\<close>

definition capture_local_frame :: "'f cv_env \<Rightarrow> camera \<Rightarrow> exn + 'f pydict" where
  "capture_local_frame env cam =
     try_except
       (and_then (device_index cam) (\<lambda>idx.
        and_then (cv_open_device env idx) (\<lambda>cap.
          if \<not> is_opened cap
          then Inr (frame_result False
                 (''Failed to open webcam at index '' @ str_of_int env idx) PNone)
          else and_then (read cap) (\<lambda>r.
                 case r of
                   Some frame \<Rightarrow> Inr (frame_result True ''Frame captured successfully'' (PFrame frame))
                 | None \<Rightarrow> Inr (frame_result False ''Failed to read frame from webcam'' PNone)))))
       (\<lambda>e. Inr (frame_result False (''Webcam frame capture error: '' @ exn_str e) PNone))"

text \<open>\<^verbatim>\<open>_capture_file_frame\<close>, lines 614--666.\<close>

definition capture_file_frame :: "'f cv_env \<Rightarrow> camera \<Rightarrow> exn + 'f pydict" where
  "capture_file_frame env cam =
     try_except
       (and_then (camera_url cam) (\<lambda>url.
        if \<not> is_file env url \<and> \<not> is_file env (path_join (media_root env) url)
        then Inr (frame_result False (''Video file not found: '' @ url) PNone)
        else
          (let file_path = (if is_file env url then url
                            else path_join (media_root env) url)
           in and_then (cv_open env file_path) (\<lambda>cap.
                if \<not> is_opened cap
                then Inr (frame_result False (''Failed to open video file: '' @ file_path) PNone)
                else and_then (read cap) (\<lambda>r.
                       case r of
                         Some frame \<Rightarrow>
                           Inr (frame_result True ''Frame captured successfully'' (PFrame frame))
                       | None \<Rightarrow>
                           Inr (frame_result False ''Failed to read frame from video file'' PNone))))))
       (\<lambda>e. Inr (frame_result False (''Video file frame capture error: '' @ exn_str e) PNone))"

text \<open>\<^verbatim>\<open>capture_frame\<close>, lines 210--250.\<close>

definition capture_frame :: "'f cv_env \<Rightarrow> camera \<Rightarrow> exn + 'f pydict" where
  "capture_frame env cam =
     try_except
       (if camera_type cam = ''rtsp'' then capture_rtsp_frame env cam
        else if camera_type cam = ''http'' then capture_http_frame env cam
        else if camera_type cam = ''local'' then capture_local_frame env cam
        else if camera_type cam = ''file'' then capture_file_frame env cam
        else Inr (frame_result False (''Unsupported camera type: '' @ camera_type cam) PNone))
       (\<lambda>e. Inr (frame_result False (''Error capturing frame: '' @ exn_str e) PNone))"

text \<open>The shape of a capture result: the three keys, a truth value, a text, a frame or \<^verbatim>\<open>None\<close>.\<close>

definition uniform_result :: "'f pydict \<Rightarrow> bool" where
  "uniform_result d =
     (dom d = {''success'', ''message'', ''frame''} \<and>
      (\<exists>b. d ''success'' = Some (PBool b)) \<and>
      (\<exists>m. d ''message'' = Some (PStr m)) \<and>
      (d ''frame'' = Some PNone \<or> (\<exists>f. d ''frame'' = Some (PFrame f))))"

section \<open>The stream proxy (utils/stream\_proxy.py)\<close>

text \<open>
  The attributes of a \<^verbatim>\<open>StreamProxy\<close> together with the part of the operating system
  it acts on: \<open>process\<close> is the handle \<^verbatim>\<open>self.process\<close> (the child's number),
  \<open>live\<close> the children launched by this proxy that have not exited, \<open>signals\<close> the
  calls of \<^verbatim>\<open>terminate()\<close> and \<^verbatim>\<open>kill()\<close> that were made and did not raise.
  The monitor thread is not part of the model.
\<close>

record proxy_state =
  process :: "nat option"
  is_running :: bool
  stop_event :: bool
  live :: "nat list"
  next_pid :: nat
  signals :: "(nat \<times> string) list"

text \<open>
  What \<^verbatim>\<open>process.wait(timeout=5)\<close> does: the child has exited, the timeout
  expires, or the call raises something else.
\<close>

datatype wait_outcome = Exited | TimeoutExpired | WaitError exn

text \<open>
  What the surroundings do during one call: whether \<^verbatim>\<open>terminate()\<close> and
  \<^verbatim>\<open>kill()\<close> raise, how the wait after \<^verbatim>\<open>terminate()\<close> ends, whether a new
  child has exited when it is polled after two seconds, and which of the other calls
  raise.
\<close>

record proc_env =
  proc_terminate :: "nat \<Rightarrow> exn option"
  proc_wait :: "nat \<Rightarrow> wait_outcome"
  proc_kill :: "nat \<Rightarrow> exn option"
  exits_early :: "nat \<Rightarrow> bool"
  clear_output_dir :: "exn option"
  popen :: "string \<Rightarrow> exn option"
  start_monitor :: "exn option"
  os_posix :: bool
  path_is_file :: "string \<Rightarrow> bool"
  proxy_media_root :: string
  str_index :: "int \<Rightarrow> string"


text \<open>
  The \<^verbatim>\<open>try\<close> block of \<^verbatim>\<open>stop\<close>, lines 111--127, up to the assignment of
  \<^verbatim>\<open>is_running\<close>, for the child \<open>p\<close> of the handle: the exception that leaves
  the block, if any, and the state at that point.  \<^verbatim>\<open>poll() is None\<close> holds for a
  live child.  The child is known to have exited only when the wait returns; after
  \<^verbatim>\<open>kill()\<close> the code does not wait, so the child is still among the live ones
  when \<^verbatim>\<open>stop\<close> returns, until it exits.
\<close>

definition stop_child :: "proc_env \<Rightarrow> nat \<Rightarrow> proxy_state \<Rightarrow> exn option \<times> proxy_state" where
  "stop_child env p st =
     (let st1 = st\<lparr>stop_event := True\<rparr>
      in if p \<in> set (live st1) then
           (case proc_terminate env p of
              Some e \<Rightarrow> (Some e, st1)
            | None \<Rightarrow>
                (let st2 = st1\<lparr>signals := signals st1 @ [(p, ''terminate'')]\<rparr>
                 in case proc_wait env p of
                      Exited \<Rightarrow> (None, st2\<lparr>live := removeAll p (live st2)\<rparr>)
                    | WaitError e \<Rightarrow> (Some e, st2)
                    | TimeoutExpired \<Rightarrow>
                        (case proc_kill env p of
                           Some e \<Rightarrow> (Some e, st2)
                         | None \<Rightarrow> (None, st2\<lparr>signals := signals st2 @ [(p, ''kill'')]\<rparr>))))
         else (None, st1))"

text \<open>
  \<^verbatim>\<open>stop\<close>, lines 105--133.  \<^verbatim>\<open>is_running\<close> is cleared when the block ends
  without an exception; an exception is logged; the handle is cleared in either case.
\<close>

definition stop :: "proc_env \<Rightarrow> proxy_state \<Rightarrow> proxy_state" where
  "stop env st =
     (case process st of
        None \<Rightarrow> st
      | Some p \<Rightarrow>
          (case stop_child env p st of
             (None, st') \<Rightarrow> st'\<lparr>is_running := False, process := None\<rparr>
           | (Some e, st') \<Rightarrow> st'\<lparr>process := None\<rparr>))"

text \<open>\<^verbatim>\<open>_get_input_url\<close>, lines 135--212.\<close>

definition get_input_url :: "proc_env \<Rightarrow> camera \<Rightarrow> exn + string" where
  "get_input_url env cam =
     (if camera_type cam = ''rtsp'' then url_with_auth cam
      else if camera_type cam = ''http'' then url_with_auth cam
      else if camera_type cam = ''local'' then
        and_then (device_index cam) (\<lambda>idx.
          if os_posix env then Inr (''/dev/video'' @ str_index env idx)
          else Inr (''video='' @ str_index env idx))
      else if camera_type cam = ''file'' then
        and_then (camera_url cam) (\<lambda>url.
          if \<not> path_is_file env url \<and> path_is_file env (path_join (proxy_media_root env) url)
          then Inr (path_join (proxy_media_root env) url)
          else Inr url)
      else Inl (ValueError (''Unsupported camera type: '' @ camera_type cam)))"

text \<open>
  \<^verbatim>\<open>start\<close>, lines 37--103: the value returned, and the states the proxy passes
  through: after the call of \<^verbatim>\<open>stop\<close>, after the child is launched, and at the
  return.  When a step raises, \<^verbatim>\<open>stop\<close> is called again and the result is
  \<^verbatim>\<open>False\<close>.
\<close>

definition start_steps :: "proc_env \<Rightarrow> camera \<Rightarrow> proxy_state \<Rightarrow> bool \<times> proxy_state list" where
  "start_steps env cam st =
     (let st1 = stop env st
      in case clear_output_dir env of
           Some e \<Rightarrow> (False, [st1, stop env st1])
         | None \<Rightarrow>
             (case get_input_url env cam of
                Inl e \<Rightarrow> (False, [st1, stop env st1])
              | Inr input_url \<Rightarrow>
                  (case popen env input_url of
                     Some e \<Rightarrow> (False, [st1, stop env st1])
                   | None \<Rightarrow>
                       (let pid = next_pid st1;
                            st2 = st1\<lparr>process := Some pid, live := live st1 @ [pid],
                                     next_pid := pid + 1\<rparr>;
                            st3 = (if exits_early env pid
                                   then st2\<lparr>live := removeAll pid (live st2)\<rparr> else st2)
                        in if pid \<in> set (live st3)
                           then (case start_monitor env of
                                   None \<Rightarrow> (True, [st1, st2, st3\<lparr>is_running := True\<rparr>])
                                 | Some e \<Rightarrow>
                                     (False, [st1, st2, st3\<lparr>is_running := True\<rparr>,
                                              stop env (st3\<lparr>is_running := True\<rparr>)]))
                           else (False, [st1, st2, st3])))))"

definition start :: "proc_env \<Rightarrow> camera \<Rightarrow> proxy_state \<Rightarrow> bool \<times> proxy_state" where
  "start env cam st = (fst (start_steps env cam st), last (snd (start_steps env cam st)))"



section \<open>What a run has seen\<close>

text \<open>
  The confidences of every box the detector reports on a frame; none when the detector
  raises on the frame, which is then not scored.
\<close>

definition box_confidences :: "yolo_result list \<Rightarrow> real list" where
  "box_confidences results = concat (map (\<lambda>r. case r of None \<Rightarrow> [] | Some cs \<Rightarrow> cs) results)"

definition frame_confidences :: "'f detector \<Rightarrow> real \<Rightarrow> real \<Rightarrow> int \<Rightarrow> 'f \<Rightarrow> real list" where
  "frame_confidences det thr iou sz frame =
     (case predict_video_frame det frame thr iou sz of
        Inl e \<Rightarrow> []
      | Inr (annotated_frame, results) \<Rightarrow> box_confidences results)"

text \<open>
  \<open>tracks C st st'\<close>: between the two states of a run the alert's confidence rose to
  the largest of \<open>C\<close> (or stayed), detections were counted exactly when \<open>C\<close> is
  not empty, and the status is the same.
\<close>

definition tracks :: "real list \<Rightarrow> 'f run_state \<Rightarrow> 'f run_state \<Rightarrow> bool" where
  "tracks C st st' =
     (confidence (alert st') = Max (insert (confidence (alert st)) (set C)) \<and>
      detection_count st \<le> detection_count st' \<and>
      (detection_count st < detection_count st' \<longleftrightarrow> C \<noteq> []) \<and>
      status (alert st') = status (alert st))"

text \<open>
  The detection confidences that cleared the threshold on the scored frames: the frames
  whose number, counted from \<open>n + 1\<close>, is a multiple of the stride.  With the stride 0
  no frame is scored.
\<close>

fun cleared_confidences ::
  "'f detector \<Rightarrow> real \<Rightarrow> real \<Rightarrow> int \<Rightarrow> int \<Rightarrow> int \<Rightarrow> 'f list \<Rightarrow> real list" where
  "cleared_confidences det thr iou sz stride n [] = []"
| "cleared_confidences det thr iou sz stride n (frame # frames) =
     (if stride \<noteq> 0 \<and> (n + 1) mod stride = 0
      then filter (\<lambda>c. c \<ge> thr) (frame_confidences det thr iou sz frame)
      else []) @
     cleared_confidences det thr iou sz stride (n + 1) frames"

text \<open>
  The frames a live run reads: it stops after the first frame at which the duration or
  the frame limit is reached.
\<close>

fun frames_read :: "(int \<Rightarrow> real) \<Rightarrow> real \<Rightarrow> int \<Rightarrow> int \<Rightarrow> 'f list \<Rightarrow> 'f list" where
  "frames_read el duration frame_limit n [] = []"
| "frames_read el duration frame_limit n (frame # frames) =
     frame # (if el (n + 1) \<ge> duration \<or> n + 1 \<ge> frame_limit then []
              else frames_read el duration frame_limit (n + 1) frames)"

section \<open>The notification engine (alerts/signals.py)\<close>

text \<open>
  A time of day is \<^verbatim>\<open>datetime.time\<close>: hour, minute, second and microsecond, compared
  in this order.  A point in time is a day number with a time of day.
\<close>

type_synonym time_of_day = "nat \<times> nat \<times> nat \<times> nat"
type_synonym datetime = "nat \<times> time_of_day"

text \<open>notifications/models.py.\<close>

record notification_setting =
  email_enabled :: bool
  email_for_fire_smoke :: bool
  email_for_fall :: bool
  email_for_violence :: bool
  email_for_choking :: bool
  email_for_unauthorized_face :: bool
  sms_enabled :: bool
  sms_for_fire_smoke :: bool
  sms_for_fall :: bool
  sms_for_violence :: bool
  sms_for_choking :: bool
  sms_for_unauthorized_face :: bool
  push_enabled :: bool
  push_for_fire_smoke :: bool
  push_for_fall :: bool
  push_for_violence :: bool
  push_for_choking :: bool
  push_for_unauthorized_face :: bool
  quiet_hours_enabled :: bool
  quiet_hours_start :: time_of_day
  quiet_hours_end :: time_of_day
  min_severity_email :: string
  min_severity_sms :: string
  min_severity_push :: string

record notification_log =
  log_user :: nat
  log_title :: string
  log_message :: string
  notification_type :: string
  log_alert :: nat
  log_status :: string
  sent_at :: "datetime option"
  error_message :: "string option"

record user =
  user_id :: nat
  email :: string
  phone_number :: "string option"

text \<open>
  The writes to the notification log table, in the order they happen:
  \<^verbatim>\<open>NotificationLog.objects.create\<close> inserts a row, which takes the next primary key,
  and \<^verbatim>\<open>notification_log.save()\<close> rewrites the row with that key.
\<close>

datatype db_write = Insert notification_log | Update nat notification_log

fun is_insert :: "db_write \<Rightarrow> bool" where
  "is_insert (Insert r) = True"
| "is_insert (Update k r) = False"

definition next_pk :: "db_write list \<Rightarrow> nat" where
  "next_pk db = length (filter is_insert db)"

text \<open>
  What the signal handler reads from outside: the tables, the clock, and the three
  senders.  A sender returns \<open>None\<close> when the \<^verbatim>\<open>try\<close> block of its channel runs
  through, and the exception when it raises: \<^verbatim>\<open>send_mail\<close> for e-mail, the logged
  intent that stands for the gateway for SMS and push.
\<close>

record notif_env =
  cameras :: "nat \<rightharpoonup> camera"
  users :: "nat \<rightharpoonup> user"
  settings :: "nat \<rightharpoonup> notification_setting"
  now :: datetime
  send_mail :: "string \<Rightarrow> string \<Rightarrow> string \<Rightarrow> exn option"
  send_sms :: "string \<Rightarrow> string \<Rightarrow> exn option"
  send_push :: "string \<Rightarrow> string \<Rightarrow> exn option"
  fmt_confidence :: "real \<Rightarrow> string"

text \<open>Lines 29--52: the global switch of each channel and its switch for the alert type.\<close>

definition type_toggles :: "notification_setting \<Rightarrow> string \<Rightarrow> bool \<times> bool \<times> bool" where
  "type_toggles ns t =
     (if t = ''fire_smoke'' then
        (email_enabled ns \<and> email_for_fire_smoke ns,
         sms_enabled ns \<and> sms_for_fire_smoke ns,
         push_enabled ns \<and> push_for_fire_smoke ns)
      else if t = ''fall'' then
        (email_enabled ns \<and> email_for_fall ns,
         sms_enabled ns \<and> sms_for_fall ns,
         push_enabled ns \<and> push_for_fall ns)
      else if t = ''violence'' then
        (email_enabled ns \<and> email_for_violence ns,
         sms_enabled ns \<and> sms_for_violence ns,
         push_enabled ns \<and> push_for_violence ns)
      else if t = ''choking'' then
        (email_enabled ns \<and> email_for_choking ns,
         sms_enabled ns \<and> sms_for_choking ns,
         push_enabled ns \<and> push_for_choking ns)
      else if t = ''unauthorized_face'' then
        (email_enabled ns \<and> email_for_unauthorized_face ns,
         sms_enabled ns \<and> sms_for_unauthorized_face ns,
         push_enabled ns \<and> push_for_unauthorized_face ns)
      else (False, False, False))"

text \<open>Line 55, and \<^verbatim>\<open>severity_rank.get(key, default)\<close>.\<close>

definition severity_rank :: "string \<rightharpoonup> int" where
  "severity_rank = [''low'' \<mapsto> 1, ''medium'' \<mapsto> 2, ''high'' \<mapsto> 3, ''critical'' \<mapsto> 4]"

definition rank_get :: "string \<Rightarrow> int \<Rightarrow> int" where
  "rank_get key dflt = (case severity_rank key of None \<Rightarrow> dflt | Some r \<Rightarrow> r)"

text \<open>Lines 56--65: the severity threshold of each channel.\<close>

definition severity_filter ::
  "notification_setting \<Rightarrow> string \<Rightarrow> bool \<times> bool \<times> bool \<Rightarrow> bool \<times> bool \<times> bool" where
  "severity_filter ns sev should =
     (case should of (should_send_email, should_send_sms, should_send_push) \<Rightarrow>
        (let alert_severity_rank = rank_get sev 2;
             email_threshold_rank = rank_get (min_severity_email ns) 2;
             sms_threshold_rank = rank_get (min_severity_sms ns) 3;
             push_threshold_rank = rank_get (min_severity_push ns) 2
         in (should_send_email \<and> alert_severity_rank \<ge> email_threshold_rank,
             should_send_sms \<and> alert_severity_rank \<ge> sms_threshold_rank,
             should_send_push \<and> alert_severity_rank \<ge> push_threshold_rank)))"

text \<open>Lines 68--87: quiet hours.\<close>

definition quiet_hours_filter ::
  "notification_setting \<Rightarrow> time_of_day \<Rightarrow> string \<Rightarrow> bool \<times> bool \<times> bool \<Rightarrow> bool \<times> bool \<times> bool" where
  "quiet_hours_filter ns current_time sev should =
     (if quiet_hours_enabled ns then
        (let start_time = quiet_hours_start ns; end_time = quiet_hours_end ns
         in if start_time \<le> end_time then
              (if start_time \<le> current_time \<and> current_time \<le> end_time then
                 (if sev \<noteq> ''critical'' then (False, False, False) else should)
               else should)
            else
              (if \<not> (end_time \<le> current_time \<and> current_time \<le> start_time) then
                 (if sev \<noteq> ''critical'' then (False, False, False) else should)
               else should))
      else should)"

text \<open>\<^verbatim>\<open>get_alert_type_display\<close>: the label of the choice, or the value when it is no choice.\<close>

definition get_alert_type_display :: "string \<Rightarrow> string" where
  "get_alert_type_display t =
     (if t = ''fire_smoke'' then ''Fire and Smoke''
      else if t = ''fall'' then ''Fall Detection''
      else if t = ''violence'' then ''Violence''
      else if t = ''choking'' then ''Choking''
      else if t = ''unauthorized_face'' then ''Unauthorized Face''
      else if t = ''other'' then ''Other''
      else t)"

definition new_log :: "user \<Rightarrow> string \<Rightarrow> string \<Rightarrow> string \<Rightarrow> nat \<Rightarrow> notification_log" where
  "new_log u t m ty aid =
     \<lparr> log_user = user_id u, log_title = t, log_message = m, notification_type = ty,
       log_alert = aid, log_status = ''pending'', sent_at = None, error_message = None \<rparr>"

text \<open>Lines 97--126, the e-mail channel.\<close>

definition email_channel ::
  "notif_env \<Rightarrow> user \<Rightarrow> string \<Rightarrow> string \<Rightarrow> nat \<Rightarrow> db_write list \<Rightarrow> db_write list" where
  "email_channel env u t m aid db =
     (let pk = next_pk db;
          notification_log = new_log u t m ''email'' aid;
          db1 = db @ [Insert notification_log]
      in case send_mail env t m (email u) of
           None \<Rightarrow>
             db1 @ [Update pk (notification_log\<lparr>log_status := ''sent'', sent_at := Some (now env)\<rparr>)]
         | Some e \<Rightarrow>
             db1 @ [Update pk (notification_log\<lparr>log_status := ''failed'',
                                                  error_message := Some (exn_str e)\<rparr>)])"

text \<open>Lines 129--151, the SMS channel.\<close>

definition sms_channel ::
  "notif_env \<Rightarrow> user \<Rightarrow> string \<Rightarrow> string \<Rightarrow> nat \<Rightarrow> db_write list \<Rightarrow> db_write list" where
  "sms_channel env u t m aid db =
     (let pk = next_pk db;
          notification_log = new_log u t m ''sms'' aid;
          db1 = db @ [Insert notification_log]
      in case send_sms env (the (phone_number u)) m of
           None \<Rightarrow>
             db1 @ [Update pk (notification_log\<lparr>log_status := ''sent'', sent_at := Some (now env)\<rparr>)]
         | Some e \<Rightarrow>
             db1 @ [Update pk (notification_log\<lparr>log_status := ''failed'',
                                                  error_message := Some (exn_str e)\<rparr>)])"

text \<open>Lines 154--176, the push channel.\<close>

definition push_channel ::
  "notif_env \<Rightarrow> user \<Rightarrow> string \<Rightarrow> string \<Rightarrow> nat \<Rightarrow> db_write list \<Rightarrow> db_write list" where
  "push_channel env u t m aid db =
     (let pk = next_pk db;
          notification_log = new_log u t m ''push'' aid;
          db1 = db @ [Insert notification_log]
      in case send_push env (email u) m of
           None \<Rightarrow>
             db1 @ [Update pk (notification_log\<lparr>log_status := ''sent'', sent_at := Some (now env)\<rparr>)]
         | Some e \<Rightarrow>
             db1 @ [Update pk (notification_log\<lparr>log_status := ''failed'',
                                                  error_message := Some (exn_str e)\<rparr>)])"

text \<open>Lines 29--87: the three decisions before dispatch.\<close>

definition channel_eligibility :: "notification_setting \<Rightarrow> alert \<Rightarrow> bool \<times> bool \<times> bool" where
  "channel_eligibility ns a = severity_filter ns (severity a) (type_toggles ns (alert_type a))"

definition should_send :: "notification_setting \<Rightarrow> time_of_day \<Rightarrow> alert \<Rightarrow> bool \<times> bool \<times> bool" where
  "should_send ns current_time a =
     quiet_hours_filter ns current_time (severity a) (channel_eligibility ns a)"

text \<open>Lines 89--94: the content of the notification.\<close>

definition notification_title :: "alert \<Rightarrow> string" where
  "notification_title a = ''ALERT: '' @ get_alert_type_display (alert_type a) @ '' detected''"

definition notification_message :: "notif_env \<Rightarrow> camera \<Rightarrow> alert \<Rightarrow> string" where
  "notification_message env cam a =
     (let camera_name = cam_name cam;
          loc = (case location a of None \<Rightarrow> ''Unknown location''
                 | Some l \<Rightarrow> if l = [] then ''Unknown location'' else l)
      in get_alert_type_display (alert_type a) @ '' detected at '' @ camera_name @
         '' ('' @ loc @ '') with '' @ fmt_confidence env (confidence a) @ '' confidence.'')"

text \<open>Lines 96--176: the three channels in turn.\<close>

definition dispatch ::
  "notif_env \<Rightarrow> camera \<Rightarrow> user \<Rightarrow> nat \<Rightarrow> alert \<Rightarrow> bool \<times> bool \<times> bool \<Rightarrow>
     db_write list \<Rightarrow> db_write list" where
  "dispatch env cam u aid a should db =
     (case should of (should_send_email, should_send_sms, should_send_push) \<Rightarrow>
        (let t = notification_title a;
             m = notification_message env cam a;
             db1 = (if should_send_email then email_channel env u t m aid db else db);
             db2 = (if should_send_sms \<and> truthy (phone_number u)
                    then sms_channel env u t m aid db1 else db1);
             db3 = (if should_send_push then push_channel env u t m aid db2 else db2)
         in db3))"

text \<open>
  \<^verbatim>\<open>send_alert_notifications\<close>, the \<^verbatim>\<open>post_save\<close> receiver; \<open>aid\<close> is the primary
  key of the saved alert.
\<close>

definition send_alert_notifications ::
  "notif_env \<Rightarrow> nat \<Rightarrow> alert \<Rightarrow> bool \<Rightarrow> db_write list \<Rightarrow> db_write list" where
  "send_alert_notifications env aid instance created db =
     (if created then
        (case camera instance of
           None \<Rightarrow> db
         | Some cid \<Rightarrow>
             (case cameras env cid of
                None \<Rightarrow> db
              | Some cam \<Rightarrow>
                  (case users env (cam_user cam) of
                     None \<Rightarrow> db
                   | Some u \<Rightarrow>
                       (case settings env (user_id u) of
                          None \<Rightarrow> db
                        | Some ns \<Rightarrow>
                            dispatch env cam u aid instance
                              (should_send ns (snd (now env)) instance) db))))
      else db)"

text \<open>
  The channels as the policy names them, and the entries of the settings that belong
  to a channel.
\<close>

datatype channel = Email | Sms | Push

fun pick :: "channel \<Rightarrow> bool \<times> bool \<times> bool \<Rightarrow> bool" where
  "pick Email (e, s, p) = e"
| "pick Sms (e, s, p) = s"
| "pick Push (e, s, p) = p"

fun channel_enabled :: "notification_setting \<Rightarrow> channel \<Rightarrow> bool" where
  "channel_enabled ns Email = email_enabled ns"
| "channel_enabled ns Sms = sms_enabled ns"
| "channel_enabled ns Push = push_enabled ns"

fun min_severity_rank :: "notification_setting \<Rightarrow> channel \<Rightarrow> int" where
  "min_severity_rank ns Email = rank_get (min_severity_email ns) 2"
| "min_severity_rank ns Sms = rank_get (min_severity_sms ns) 3"
| "min_severity_rank ns Push = rank_get (min_severity_push ns) 2"

text \<open>The matrix of switches, channel by alert type; there is no switch for another type.\<close>

fun type_toggle :: "notification_setting \<Rightarrow> channel \<Rightarrow> string \<Rightarrow> bool option" where
  "type_toggle ns Email t =
     [''fire_smoke'' \<mapsto> email_for_fire_smoke ns, ''fall'' \<mapsto> email_for_fall ns,
      ''violence'' \<mapsto> email_for_violence ns, ''choking'' \<mapsto> email_for_choking ns,
      ''unauthorized_face'' \<mapsto> email_for_unauthorized_face ns] t"
| "type_toggle ns Sms t =
     [''fire_smoke'' \<mapsto> sms_for_fire_smoke ns, ''fall'' \<mapsto> sms_for_fall ns,
      ''violence'' \<mapsto> sms_for_violence ns, ''choking'' \<mapsto> sms_for_choking ns,
      ''unauthorized_face'' \<mapsto> sms_for_unauthorized_face ns] t"
| "type_toggle ns Push t =
     [''fire_smoke'' \<mapsto> push_for_fire_smoke ns, ''fall'' \<mapsto> push_for_fall ns,
      ''violence'' \<mapsto> push_for_violence ns, ''choking'' \<mapsto> push_for_choking ns,
      ''unauthorized_face'' \<mapsto> push_for_unauthorized_face ns] t"

fun channel_name :: "channel \<Rightarrow> string" where
  "channel_name Email = ''email''"
| "channel_name Sms = ''sms''"
| "channel_name Push = ''push''"

text \<open>
  The quiet-hours window as the handler reads it: from start to end, both included,
  when start is not after end; otherwise the times before the end and the times after
  the start, the two bounds themselves left out.
\<close>

definition in_quiet_hours :: "notification_setting \<Rightarrow> time_of_day \<Rightarrow> bool" where
  "in_quiet_hours ns t =
     (if quiet_hours_start ns \<le> quiet_hours_end ns
      then quiet_hours_start ns \<le> t \<and> t \<le> quiet_hours_end ns
      else t < quiet_hours_end ns \<or> quiet_hours_start ns < t)"

text \<open>
  One attempt on a channel as the policy describes it: a row is created in state
  \<^verbatim>\<open>pending\<close>, and rewritten as \<^verbatim>\<open>sent\<close> with the time when the sender ran
  through, as \<^verbatim>\<open>failed\<close> with the error text when it raised.
\<close>

fun send_outcome :: "notif_env \<Rightarrow> user \<Rightarrow> string \<Rightarrow> string \<Rightarrow> channel \<Rightarrow> exn option" where
  "send_outcome env u t m Email = send_mail env t m (email u)"
| "send_outcome env u t m Sms = send_sms env (the (phone_number u)) m"
| "send_outcome env u t m Push = send_push env (email u) m"

definition attempt_writes ::
  "notif_env \<Rightarrow> user \<Rightarrow> string \<Rightarrow> string \<Rightarrow> nat \<Rightarrow> channel \<Rightarrow> nat \<Rightarrow> db_write list" where
  "attempt_writes env u t m aid ch pk =
     (let row = new_log u t m (channel_name ch) aid
      in [Insert row,
          Update pk (case send_outcome env u t m ch of
                       None \<Rightarrow> row\<lparr>log_status := ''sent'', sent_at := Some (now env)\<rparr>
                     | Some e \<Rightarrow> row\<lparr>log_status := ''failed'',
                                      error_message := Some (exn_str e)\<rparr>)])"

fun attempts ::
  "notif_env \<Rightarrow> user \<Rightarrow> string \<Rightarrow> string \<Rightarrow> nat \<Rightarrow> channel list \<Rightarrow> nat \<Rightarrow> db_write list" where
  "attempts env u t m aid [] pk = []"
| "attempts env u t m aid (ch # chs) pk =
     attempt_writes env u t m aid ch pk @ attempts env u t m aid chs (pk + 1)"

text \<open>
  The channels that are attempted: those the decision left switched on; SMS only for a
  user with a phone number.
\<close>

definition attempted :: "user \<Rightarrow> bool \<times> bool \<times> bool \<Rightarrow> channel list" where
  "attempted u should =
     filter (\<lambda>ch. pick ch should \<and> (ch = Sms \<longrightarrow> truthy (phone_number u))) [Email, Sms, Push]"

section \<open>Example inputs\<close>

text \<open>
  Frames are numbers.  The example detector fails on frame 15, reports 0.95 and 0.3 on
  frame 10, 0.6 on frame 5, 0.99 on frame 3 and an empty box list elsewhere.
\<close>

definition example_detector :: "nat detector" where
  "example_detector =
     \<lparr> det_name = ''Fire and Smoke'', model_path = ''models/fire_smoke.pt'',
       predict_video_frame = (\<lambda>frame thr iou sz.
         if frame = 15 then Inl (Error ''inference failed'')
         else if frame = 10 then Inr (frame + 100, [Some [0.95, 0.3], None])
         else if frame = 5 then Inr (frame + 100, [Some [0.6]])
         else if frame = 3 then Inr (frame + 100, [Some [0.99]])
         else Inr (frame + 100, [Some []])) \<rparr>"

definition example_manager :: "nat model_manager" where
  "example_manager =
     model_manager_init example_detector example_detector example_detector example_detector"

definition example_world :: "nat world" where
  "example_world =
     \<lparr> video_capture = (\<lambda>p.
         if p = ''clip.mp4'' then Some [1, 2, 3, 4, 5, 6, 7, 8, 9, 10, 11, 12, 13, 14, 15]
         else if p = ''quiet.mp4'' then Some [1, 2, 3, 4]
         else if p = ''rtsp://cam/1'' then Some [1, 2, 3, 4, 5, 6, 7, 8, 9, 10, 11, 12]
         else if p = ''rtsp://cam/2'' then Some [1, 2, 3, 4]
         else None),
       output_dir = ''media/alerts/videos'',
       stamp = ''20250101_120000'',
       elapsed = (\<lambda>n. real_of_int n / 10),
       create_thumbnail = (\<lambda>src a n. None),
       lower = (\<lambda>s. s),
       str_int = (\<lambda>n. ''N''),
       fmt_2f = (\<lambda>x. ''X'') \<rparr>"

definition example_camera :: "nat \<Rightarrow> string \<Rightarrow> camera" where
  "example_camera i u =
     \<lparr> cam_id = i, cam_name = ''Lobby'', cam_location = Some ''Hall'', camera_type = ''rtsp'',
       stream_url = u, username = None, password = None,
       cam_status = ''offline'', frame_rate = 5, cam_user = 7 \<rparr>"

definition example_cameras :: "nat \<rightharpoonup> camera" where
  "example_cameras =
     [1 \<mapsto> example_camera 1 ''rtsp://cam/1'', 2 \<mapsto> example_camera 2 ''rtsp://cam/2'']"

text \<open>The same table after the frame rate of camera 2 was set to 0.\<close>

definition example_cameras_zero_rate :: "nat \<rightharpoonup> camera" where
  "example_cameras_zero_rate =
     example_cameras(2 \<mapsto> (example_camera 2 ''rtsp://cam/2'')\<lparr>frame_rate := 0\<rparr>)"

definition example_settings :: notification_setting where
  "example_settings =
     \<lparr> email_enabled = True, email_for_fire_smoke = True, email_for_fall = True,
       email_for_violence = True, email_for_choking = True, email_for_unauthorized_face = True,
       sms_enabled = False, sms_for_fire_smoke = True, sms_for_fall = True,
       sms_for_violence = True, sms_for_choking = True, sms_for_unauthorized_face = True,
       push_enabled = True, push_for_fire_smoke = True, push_for_fall = False,
       push_for_violence = True, push_for_choking = True, push_for_unauthorized_face = True,
       quiet_hours_enabled = True,
       quiet_hours_start = (22, 0, 0, 0), quiet_hours_end = (7, 0, 0, 0),
       min_severity_email = ''medium'', min_severity_sms = ''high'',
       min_severity_push = ''high'' \<rparr>"

definition example_alert :: "string \<Rightarrow> string \<Rightarrow> alert" where
  "example_alert ty sev =
     \<lparr> title = ''Fire and Smoke Detection'', description = ''d'', alert_type = ty,
       status = ''new'', severity = sev, confidence = 0.95, camera = Some 1,
       location = Some ''Hall'', video_file = ''alerts/videos/v.mp4'', thumbnail = None \<rparr>"

definition example_user :: user where
  "example_user = \<lparr> user_id = 7, email = ''owner@example.org'', phone_number = Some ''555'' \<rparr>"

text \<open>In the example the mail server refuses the message; SMS and push run through.\<close>

definition example_notif_env :: notif_env where
  "example_notif_env =
     \<lparr> cameras = example_cameras,
       users = [7 \<mapsto> example_user],
       settings = [7 \<mapsto> example_settings],
       now = (100, (12, 30, 0, 0)),
       send_mail = (\<lambda>t m r. Some (Error ''SMTP refused'')),
       send_sms = (\<lambda>n m. None),
       send_push = (\<lambda>r m. None),
       fmt_confidence = (\<lambda>x. ''0.95'') \<rparr>"

definition example_critical :: alert where
  "example_critical = example_alert ''fire_smoke'' ''critical''"

text \<open>
  An RTSP source for the camera manager: the stream opens or not as the flag says, and no
  frame can be grabbed or read from it.  There is no local device.
\<close>

definition example_cv_env :: "bool \<Rightarrow> nat cv_env" where
  "example_cv_env opened =
     \<lparr> cv_open = (\<lambda>u. Inr \<lparr>is_opened = opened, grab = Inr False, read = Inr None\<rparr>),
       cv_open_device = (\<lambda>i. Inl (Error ''no device'')),
       http_get = (\<lambda>u a. Inl (Timeout ''timed out'')),
       imdecode = (\<lambda>c. Inr None),
       is_file = (\<lambda>p. False),
       media_root = ''media'',
       str_of_int = (\<lambda>n. ''N''),
       save_camera = (\<lambda>c. None) \<rparr>"


definition example_state :: "nat run_state" where
  "example_state =
     (run_init
        \<lparr> title = ''Fire and Smoke Detection'', description = ''d'',
          alert_type = ''fire_smoke'', status = ''new'', severity = ''medium'',
          confidence = 0, camera = Some 1, location = None,
          video_file = ''alerts/videos/v.mp4'', thumbnail = None \<rparr>)\<lparr>frame_count := 9\<rparr>"

section \<open>Properties of the frame loops\<close>

lemma Max_filter_ge:
  fixes cs :: "real list"
  assumes "cs \<noteq> []" "Max (set cs) \<ge> thr"
  shows "filter (\<lambda>c. c \<ge> thr) cs \<noteq> [] \<and> Max (set (filter (\<lambda>c. c \<ge> thr) cs)) = Max (set cs)"
proof -
  have m: "Max (set cs) \<in> set cs" using assms(1) by (simp add: Max_in)
  then have mem: "Max (set cs) \<in> set (filter (\<lambda>c. c \<ge> thr) cs)" using assms(2) by simp
  then have ne: "filter (\<lambda>c. c \<ge> thr) cs \<noteq> []" by (metis empty_iff empty_set)
  have "Max (set (filter (\<lambda>c. c \<ge> thr) cs)) = Max (set cs)"
  proof (rule Max_eqI)
    show "finite (set (filter (\<lambda>c. c \<ge> thr) cs))" by simp
    show "\<And>y. y \<in> set (filter (\<lambda>c. c \<ge> thr) cs) \<Longrightarrow> y \<le> Max (set cs)" by simp
    show "Max (set cs) \<in> set (filter (\<lambda>c. c \<ge> thr) cs)" by (rule mem)
  qed
  with ne show ?thesis by simp
qed

lemma filter_ge_empty:
  fixes cs :: "real list"
  assumes "\<not> (cs \<noteq> [] \<and> Max (set cs) \<ge> thr)"
  shows "filter (\<lambda>c. c \<ge> thr) cs = []"
proof (cases "cs = []")
  case True then show ?thesis by simp
next
  case False
  with assms have lt: "Max (set cs) < thr" by (metis not_le)
  have "\<forall>c\<in>set cs. \<not> c \<ge> thr"
  proof
    fix c assume "c \<in> set cs"
    then have "c \<le> Max (set cs)" by simp
    with lt show "\<not> c \<ge> thr" by simp
  qed
  then show ?thesis by (simp add: filter_empty_conv)
qed

lemma Max_insert_append:
  fixes c :: real
  assumes "F \<noteq> []"
  shows "Max (insert c (set (F @ C))) = Max (insert (max c (Max (set F))) (set C))"
proof -
  have ne: "set F \<noteq> {}" using assms by simp
  show ?thesis
  proof (cases "set C = {}")
    case True
    then show ?thesis using ne by simp
  next
    case False
    have "Max (insert c (set (F @ C))) = max c (Max (set F \<union> set C))"
      using ne by simp
    also have "Max (set F \<union> set C) = max (Max (set F)) (Max (set C))"
      using ne False by (simp add: Max_Un)
    finally show ?thesis using False by (simp add: max.assoc)
  qed
qed

lemma check_results_effect:
  "check_results thr rs ((has, c), st) = ((has', c'), st') \<Longrightarrow>
     has' = (has \<or> filter (\<lambda>x. x \<ge> thr) (box_confidences rs) \<noteq> []) \<and>
     c' = Max (insert c (set (filter (\<lambda>x. x \<ge> thr) (box_confidences rs)))) \<and>
     alert st' = alert st \<and> out st' = out st \<and> frame_count st' = frame_count st \<and>
     detection_count st \<le> detection_count st' \<and>
     (detection_count st < detection_count st' \<longleftrightarrow> filter (\<lambda>x. x \<ge> thr) (box_confidences rs) \<noteq> [])"
proof (induction rs arbitrary: has c st)
  case Nil
  then show ?case by (simp add: box_confidences_def)
next
  case (Cons r rs)
  show ?case
  proof (cases r)
    case None
    with Cons.prems have "check_results thr rs ((has, c), st) = ((has', c'), st')" by simp
    from Cons.IH [OF this] None show ?thesis by (simp add: box_confidences_def)
  next
    case (Some cs)
    show ?thesis
    proof (cases "cs \<noteq> [] \<and> Max (set cs) \<ge> thr")
      case True
      let ?st1 = "st\<lparr> detection_frames := detection_frames st @ [frame_count st],
                      detection_confidences := detection_confidences st @ [Max (set cs)],
                      detection_count := detection_count st + 1 \<rparr>"
      from Cons.prems Some True
      have "check_results thr rs ((True, max c (Max (set cs))), ?st1) = ((has', c'), st')" by simp
      note ih = Cons.IH [OF this]
      from True have f: "filter (\<lambda>x. x \<ge> thr) cs \<noteq> []"
        and m: "Max (set (filter (\<lambda>x. x \<ge> thr) cs)) = Max (set cs)"
        using Max_filter_ge [of cs thr] by simp_all
      have u: "filter (\<lambda>x. x \<ge> thr) (box_confidences (r # rs)) =
               filter (\<lambda>x. x \<ge> thr) cs @ filter (\<lambda>x. x \<ge> thr) (box_confidences rs)"
        using Some by (simp add: box_confidences_def)
      have "c' = Max (insert c (set (filter (\<lambda>x. x \<ge> thr) (box_confidences (r # rs)))))"
        using ih Max_insert_append [OF f, of c "filter (\<lambda>x. x \<ge> thr) (box_confidences rs)"] m u by simp
      moreover have "has' = (has \<or> filter (\<lambda>x. x \<ge> thr) (box_confidences (r # rs)) \<noteq> [])"
        using ih u f by simp
      moreover have "detection_count st < detection_count st'" using ih by simp
      ultimately show ?thesis using ih u f by simp
    next
      case False
      with Cons.prems Some
      have "check_results thr rs ((has, c), st) = ((has', c'), st')" by auto
      note ih = Cons.IH [OF this]
      have "filter (\<lambda>x. x \<ge> thr) cs = []" using filter_ge_empty [OF False] .
      then have u: "filter (\<lambda>x. x \<ge> thr) (box_confidences (r # rs)) = filter (\<lambda>x. x \<ge> thr) (box_confidences rs)"
        using Some by (simp add: box_confidences_def)
      show ?thesis using ih unfolding u by simp
    qed
  qed
qed

lemma Max_insert_pick:
  fixes a :: real
  assumes "0 \<le> a"
  shows "(if C \<noteq> [] \<and> Max (insert 0 (set C)) > a then Max (insert 0 (set C)) else a)
           = Max (insert a (set C))"
proof (cases "C = []")
  case True then show ?thesis by simp
next
  case False
  then have ne: "set C \<noteq> {}" by simp
  have i0: "Max (insert 0 (set C)) = max 0 (Max (set C))"
    and ia: "Max (insert a (set C)) = max a (Max (set C))"
    using ne by simp_all
  show ?thesis using False assms unfolding i0 ia by auto
qed

lemma Max_insert_Max:
  fixes a :: real
  assumes "finite A" "finite B"
  shows "Max (insert (Max (insert a A)) B) = Max (insert a (A \<union> B))"
proof (cases "A = {}")
  case True then show ?thesis by simp
next
  case A: False
  show ?thesis
  proof (cases "B = {}")
    case True then show ?thesis by simp
  next
    case B: False
    have "Max (insert a (A \<union> B)) = max a (Max (A \<union> B))"
      using assms A by simp
    also have "Max (A \<union> B) = max (Max A) (Max B)"
      using assms A B by (simp add: Max_Un)
    finally have r: "Max (insert a (A \<union> B)) = max a (max (Max A) (Max B))" .
    have l: "Max (insert (Max (insert a A)) B) = max (Max (insert a A)) (Max B)"
      using assms B by simp
    have m: "Max (insert a A) = max a (Max A)" using assms A by simp
    show ?thesis by (subst l, subst m, subst r) (simp add: max.assoc)
  qed
qed

lemma tracks_trans:
  assumes "tracks C1 st st1" "tracks C2 st1 st2"
  shows "tracks (C1 @ C2) st st2"
proof -
  have m: "Max (insert (Max (insert (confidence (alert st)) (set C1))) (set C2))
        = Max (insert (confidence (alert st)) (set C1 \<union> set C2))"
    by (rule Max_insert_Max) simp_all
  have c: "confidence (alert st2) = Max (insert (confidence (alert st)) (set (C1 @ C2)))"
    using assms m unfolding tracks_def by simp
  show ?thesis using assms c unfolding tracks_def by auto
qed

lemma tracks_nonneg: "tracks C st st' \<Longrightarrow> 0 \<le> confidence (alert st) \<Longrightarrow> 0 \<le> confidence (alert st')"
  unfolding tracks_def by (simp add: Max_ge_iff)

lemma score_frame_tracks:
  assumes "0 \<le> confidence (alert st)"
  shows "tracks (filter (\<lambda>c. c \<ge> thr) (frame_confidences det thr iou sz frame)) st
           (score_frame det thr iou sz frame st) \<and>
         frame_count (score_frame det thr iou sz frame st) = frame_count st"
proof (cases "predict_video_frame det frame thr iou sz")
  case (Inl e)
  then show ?thesis by (simp add: score_frame_def frame_confidences_def tracks_def)
next
  case (Inr p)
  obtain annotated results where p: "p = (annotated, results)" by (cases p)
  let ?C = "filter (\<lambda>c. c \<ge> thr) (box_confidences results)"
  obtain has c st1 where cr: "check_results thr results ((False, 0), st) = ((has, c), st1)"
    by (metis surj_pair)
  note eff = check_results_effect [OF cr]
  have fc: "frame_confidences det thr iou sz frame = box_confidences results"
    using Inr p by (simp add: frame_confidences_def)
  have hasC: "has = (?C \<noteq> [])" and cC: "c = Max (insert 0 (set ?C))"
    using eff by blast+
  have pick: "(if has \<and> c > confidence (alert st) then c else confidence (alert st))
              = Max (insert (confidence (alert st)) (set ?C))"
    unfolding hasC cC by (rule Max_insert_pick [OF assms])
  have al: "alert st1 = alert st" and fcnt: "frame_count st1 = frame_count st"
    and dc1: "detection_count st \<le> detection_count st1"
    and dc2: "(detection_count st < detection_count st1) = (?C \<noteq> [])"
    using eff by blast+
  have sf: "score_frame det thr iou sz frame st =
            (let st2 = st1\<lparr>out := out st1 @ [annotated]\<rparr>
             in if has \<and> c > confidence (alert st2)
                then st2\<lparr>alert := update_alert c (alert st2)\<rparr> else st2)"
    using Inr p cr by (simp add: score_frame_def)
  show ?thesis
  proof (cases "has \<and> c > confidence (alert st)")
    case True
    have r: "score_frame det thr iou sz frame st =
               st1\<lparr>out := out st1 @ [annotated], alert := update_alert c (alert st1)\<rparr>"
      using sf True al by (simp add: Let_def)
    have cm: "c = Max (insert (confidence (alert st)) (set ?C))"
      using pick True by simp
    show ?thesis
      unfolding r tracks_def fc
      using cm al fcnt dc1 dc2 by (simp add: update_alert_def)
  next
    case False
    have r: "score_frame det thr iou sz frame st = st1\<lparr>out := out st1 @ [annotated]\<rparr>"
      using sf False al by (simp add: Let_def)
    have cm: "confidence (alert st) = Max (insert (confidence (alert st)) (set ?C))"
      using pick False by simp
    show ?thesis
      unfolding r tracks_def fc
      using cm al fcnt dc1 dc2 by simp
  qed
qed

lemma handle_frame_tracks:
  assumes "0 \<le> confidence (alert st)" "stride \<noteq> 0"
  shows "\<exists>st'. handle_frame det thr iou sz stride frame st = Inr st' \<and>
           frame_count st' = frame_count st + 1 \<and>
           tracks (cleared_confidences det thr iou sz stride (frame_count st) [frame]) st st'"
proof (cases "(frame_count st + 1) mod stride = 0")
  case True
  let ?st1 = "st\<lparr>frame_count := frame_count st + 1\<rparr>"
  have "0 \<le> confidence (alert ?st1)" using assms(1) by simp
  from score_frame_tracks [OF this, of thr det iou sz frame]
  show ?thesis using True assms(2) by (simp add: handle_frame_def tracks_def)
next
  case False
  then show ?thesis using assms(2) by (simp add: handle_frame_def tracks_def)
qed

lemma cleared_confidences_Cons:
  "cleared_confidences det thr iou sz stride n (frame # frames) =
     cleared_confidences det thr iou sz stride n [frame] @
     cleared_confidences det thr iou sz stride (n + 1) frames"
  by simp

lemma video_loop_tracks:
  "0 \<le> confidence (alert st) \<Longrightarrow>
   \<exists>st'. video_loop det thr iou sz frames st = Inr st' \<and>
         tracks (cleared_confidences det thr iou sz 5 (frame_count st) frames) st st'"
proof (induction frames arbitrary: st)
  case Nil
  then show ?case by (simp add: tracks_def)
next
  case (Cons frame frames)
  from handle_frame_tracks [OF Cons.prems, of 5 det thr iou sz frame]
  obtain st1 where h: "handle_frame det thr iou sz 5 frame st = Inr st1"
    and n: "frame_count st1 = frame_count st + 1"
    and t: "tracks (cleared_confidences det thr iou sz 5 (frame_count st) [frame]) st st1"
    by auto
  have "0 \<le> confidence (alert st1)" using tracks_nonneg [OF t Cons.prems] .
  from Cons.IH [OF this] obtain st' where
    l: "video_loop det thr iou sz frames st1 = Inr st'" and
    t': "tracks (cleared_confidences det thr iou sz 5 (frame_count st1) frames) st1 st'"
    by auto
  have eq: "cleared_confidences det thr iou sz 5 (frame_count st) (frame # frames) =
            cleared_confidences det thr iou sz 5 (frame_count st) [frame] @
            cleared_confidences det thr iou sz 5 (frame_count st1) frames"
    using n by simp
  have "tracks (cleared_confidences det thr iou sz 5 (frame_count st) (frame # frames)) st st'"
    unfolding eq using tracks_trans [OF t t'] .
  then show ?case using h l by simp
qed

lemma stream_loop_tracks:
  "0 \<le> confidence (alert st) \<Longrightarrow> stride \<noteq> 0 \<Longrightarrow>
   \<exists>st'. stream_loop det thr iou sz stride el duration frame_limit frames st = Inr st' \<and>
         tracks (cleared_confidences det thr iou sz stride (frame_count st)
                   (frames_read el duration frame_limit (frame_count st) frames)) st st'"
proof (induction frames arbitrary: st)
  case Nil
  then show ?case by (simp add: tracks_def)
next
  case (Cons frame frames)
  from handle_frame_tracks [OF Cons.prems, of det thr iou sz frame]
  obtain st1 where h: "handle_frame det thr iou sz stride frame st = Inr st1"
    and n: "frame_count st1 = frame_count st + 1"
    and t: "tracks (cleared_confidences det thr iou sz stride (frame_count st) [frame]) st st1"
    by auto
  show ?case
  proof (cases "el (frame_count st1) \<ge> duration \<or> frame_count st1 \<ge> frame_limit")
    case True
    then have "frames_read el duration frame_limit (frame_count st) (frame # frames) = [frame]"
      using n by simp
    then show ?thesis using h t True by simp
  next
    case False
    then have fr: "frames_read el duration frame_limit (frame_count st) (frame # frames)
                   = frame # frames_read el duration frame_limit (frame_count st1) frames"
      using n by simp
    have "0 \<le> confidence (alert st1)" using tracks_nonneg [OF t Cons.prems(1)] .
    from Cons.IH [OF this Cons.prems(2)] obtain st' where
      l: "stream_loop det thr iou sz stride el duration frame_limit frames st1 = Inr st'" and
      t': "tracks (cleared_confidences det thr iou sz stride (frame_count st1)
                    (frames_read el duration frame_limit (frame_count st1) frames)) st1 st'"
      by auto
    have eq: "cleared_confidences det thr iou sz stride (frame_count st)
                (frame # frames_read el duration frame_limit (frame_count st1) frames) =
              cleared_confidences det thr iou sz stride (frame_count st) [frame] @
              cleared_confidences det thr iou sz stride (frame_count st1)
                (frames_read el duration frame_limit (frame_count st1) frames)"
      using n by simp
    have "tracks (cleared_confidences det thr iou sz stride (frame_count st)
                   (frames_read el duration frame_limit (frame_count st) (frame # frames))) st st'"
      unfolding fr eq using tracks_trans [OF t t'] .
    then show ?thesis using h l False by simp
  qed
qed

lemma finish_run_confidence:
  "confidence (finish_run w det src wh st) = confidence (alert st)"
  by (simp add: finish_run_def Let_def)

lemma finish_run_status:
  "status (finish_run w det src wh st) =
     (if detection_count st > 0 then status (alert st) else ''false_positive'')"
  by (simp add: finish_run_def Let_def)

lemma finish_run_description:
  "\<not> detection_count st > 0 \<Longrightarrow>
   description (finish_run w det src wh st) = ''No '' @ lower w (det_name det) @ '' detected in '' @ wh"
  by (simp add: finish_run_def)

lemma run_init_tracks:
  assumes "alert_create t d ty sev cam loc vf = Inr a0" "tracks C (run_init a0) st"
  shows "confidence (alert st) = Max (insert 0 (set C)) \<and>
         (0 < detection_count st \<longleftrightarrow> C \<noteq> []) \<and> status (alert st) = ''new''"
  using assms by (cases cam) (auto simp add: tracks_def run_init_def alert_create_def)

lemma alert_create_Some: "\<exists>a0. alert_create t d ty sev (Some c) loc vf = Inr a0"
  by (simp add: alert_create_def)

lemma alert_create_fresh:
  "alert_create t d ty sev cam loc vf = Inr a0 \<Longrightarrow> confidence a0 = 0 \<and> status a0 = ''new''"
  by (cases cam) (auto simp add: alert_create_def)

lemma process_video_run:
  assumes "get_detector mm (Some key) = Inr det" "video_capture w path = Some frames"
    "camera_id = Some i" "i \<noteq> 0" "cams i = Some c"
  shows "\<exists>p st. process_video w mm cams path key thr iou sz camera_id
                  = Inr (p, finish_run w det path ''the video.'' st) \<and>
           confidence (alert st) = Max (insert 0 (set (cleared_confidences det thr iou sz 5 0 frames))) \<and>
           (0 < detection_count st \<longleftrightarrow> cleared_confidences det thr iou sz 5 0 frames \<noteq> []) \<and>
           status (alert st) = ''new''"
proof -
  obtain a0 where ac: "alert_create
                           (det_name det @ '' Detection'')
                           (''Automatic detection of '' @ lower w (det_name det) @ '' in video.'')
                           key ''medium'' (Some (cam_id c)) (cam_location c)
                           (''alerts/videos/'' @ (key @ ''_'' @ stamp w @ ''.mp4'')) = Inr a0"
    using alert_create_Some by blast
  have z: "0 \<le> confidence (alert (run_init a0 :: 'a run_state))"
    using alert_create_fresh [OF ac] by (simp add: run_init_def)
  have fc: "frame_count (run_init a0 :: 'a run_state) = 0" by (simp add: run_init_def)
  from video_loop_tracks [OF z, of det thr iou sz frames]
  obtain st where l: "video_loop det thr iou sz frames (run_init a0) = Inr st"
    and t: "tracks (cleared_confidences det thr iou sz 5 0 frames) (run_init a0) st"
    unfolding fc by auto
  have "process_video w mm cams path key thr iou sz camera_id
          = Inr (path_join (output_dir w) (key @ ''_'' @ stamp w @ ''.mp4''),
                 finish_run w det path ''the video.'' st)"
    using assms l ac by (simp add: process_video_def Let_def)
  moreover note run_init_tracks [OF ac t]
  ultimately show ?thesis by blast
qed

lemma process_video_without_camera:
  assumes "get_detector mm (Some key) = Inr det" "video_capture w path = Some frames"
    "camera_id = None \<or> camera_id = Some 0 \<or> (\<exists>i. camera_id = Some i \<and> cams i = None)"
  shows "process_video w mm cams path key thr iou sz camera_id
           = Inl (IntegrityError ''NOT NULL constraint failed: alerts_alert.camera_id'')"
  using assms by (auto simp add: process_video_def Let_def alert_create_def)

lemma process_camera_stream_run:
  assumes "cams camera_id = Some cam" "get_detector mm (Some key) = Inr det"
    "video_capture w (get_stream_url cam) = Some frames" "frame_rate cam \<noteq> 0"
    "C = cleared_confidences det (conf_threshold (get_detector_config mm key))
           (iou_threshold (get_detector_config mm key))
           (image_size (get_detector_config mm key)) (frame_rate cam) 0
           (frames_read (elapsed w) duration frame_limit 0 frames)"
  shows "\<exists>p st. fst (process_camera_stream w mm cams camera_id key duration frame_limit)
                  = Inr (p, finish_run w det p ''the camera stream.'' st) \<and>
           snd (snd (process_camera_stream w mm cams camera_id key duration frame_limit))
                  = Some (finish_run w det p ''the camera stream.'' st) \<and>
           confidence (alert st) = Max (insert 0 (set C)) \<and>
           (0 < detection_count st \<longleftrightarrow> C \<noteq> []) \<and>
           status (alert st) = ''new''"
proof -
  define vf where "vf = ''camera_'' @ str_int w (int camera_id) @ ''_'' @ key @
                              ''_'' @ stamp w @ ''.mp4''"
  obtain a0 where ac: "alert_create
                                   (det_name det @ '' Detection - '' @ cam_name cam)
                                   (''Real-time detection of '' @ lower w (det_name det) @
                                    '' from camera '' @ cam_name cam @ ''.'')
                                   key ''medium''
                                   (Some (cam_id cam)) (cam_location cam)
                                   (''alerts/videos/'' @ vf) = Inr a0"
    using alert_create_Some by blast
  have z: "0 \<le> confidence (alert (run_init a0 :: 'a run_state))"
    using alert_create_fresh [OF ac] by (simp add: run_init_def)
  have fc: "frame_count (run_init a0 :: 'a run_state) = 0" by (simp add: run_init_def)
  from stream_loop_tracks [OF z assms(4), of det "conf_threshold (get_detector_config mm key)"
         "iou_threshold (get_detector_config mm key)" "image_size (get_detector_config mm key)"
         "elapsed w" duration frame_limit frames]
  obtain st where l: "stream_loop det (conf_threshold (get_detector_config mm key))
                        (iou_threshold (get_detector_config mm key))
                        (image_size (get_detector_config mm key))
                        (frame_rate cam) (elapsed w) duration frame_limit
                        frames (run_init a0) = Inr st"
    and t: "tracks C (run_init a0) st"
    unfolding fc assms(5) by auto
  have "process_camera_stream w mm cams camera_id key duration frame_limit
          = (Inr (path_join (output_dir w) vf,
                  finish_run w det (path_join (output_dir w) vf) ''the camera stream.'' st),
             cams(camera_id \<mapsto> cam\<lparr>cam_status := ''online''\<rparr>),
             Some (finish_run w det (path_join (output_dir w) vf) ''the camera stream.'' st))"
    using assms(1,2,3) l ac [unfolded vf_def]
    by (simp add: process_camera_stream_def Let_def vf_def)
  then have "fst (process_camera_stream w mm cams camera_id key duration frame_limit)
          = Inr (path_join (output_dir w) vf,
                 finish_run w det (path_join (output_dir w) vf) ''the camera stream.'' st) \<and>
        snd (snd (process_camera_stream w mm cams camera_id key duration frame_limit))
          = Some (finish_run w det (path_join (output_dir w) vf) ''the camera stream.'' st)"
    by simp
  moreover note run_init_tracks [OF ac t]
  ultimately show ?thesis by blast
qed

lemma stream_loop_zero_stride:
  "stream_loop det thr iou sz 0 el duration frame_limit (frame # frames) st
     = Inl (ZeroDivisionError, alert st)"
  by (simp add: handle_frame_def)

lemma cleared_zero_stride: "cleared_confidences det thr iou sz 0 n frames = []"
  by (induction frames arbitrary: n) simp_all

lemma process_camera_stream_zero_rate:
  assumes "cams camera_id = Some cam" "get_detector mm (Some key) = Inr det"
    "video_capture w (get_stream_url cam) = Some frames" "frame_rate cam = 0"
  shows "\<exists>a. snd (snd (process_camera_stream w mm cams camera_id key duration frame_limit))
                = Some a \<and> confidence a = 0 \<and>
             (frames \<noteq> [] \<longrightarrow>
                fst (process_camera_stream w mm cams camera_id key duration frame_limit)
                  = Inl ZeroDivisionError \<and> status a = ''new'')"
proof -
  define vf where "vf = ''camera_'' @ str_int w (int camera_id) @ ''_'' @ key @
                              ''_'' @ stamp w @ ''.mp4''"
  obtain a0 where ac: "alert_create
                                   (det_name det @ '' Detection - '' @ cam_name cam)
                                   (''Real-time detection of '' @ lower w (det_name det) @
                                    '' from camera '' @ cam_name cam @ ''.'')
                                   key ''medium''
                                   (Some (cam_id cam)) (cam_location cam)
                                   (''alerts/videos/'' @ vf) = Inr a0"
    using alert_create_Some by blast
  note fresh = alert_create_fresh [OF ac]
  show ?thesis
  proof (cases frames)
    case Nil
    then have "snd (snd (process_camera_stream w mm cams camera_id key duration frame_limit))
          = Some (finish_run w det (path_join (output_dir w) vf) ''the camera stream.''
                    (run_init a0))"
      using assms ac [unfolded vf_def]
      by (simp add: process_camera_stream_def Let_def vf_def)
    then show ?thesis using Nil fresh by (simp add: finish_run_confidence run_init_def)
  next
    case (Cons frame rest)
    have l: "stream_loop det (conf_threshold (get_detector_config mm key))
               (iou_threshold (get_detector_config mm key))
               (image_size (get_detector_config mm key))
               (frame_rate cam) (elapsed w) duration frame_limit frames (run_init a0)
             = Inl (ZeroDivisionError, a0)"
      unfolding Cons assms(4) stream_loop_zero_stride by (simp add: run_init_def)
    have "process_camera_stream w mm cams camera_id key duration frame_limit
          = (Inl ZeroDivisionError, cams(camera_id \<mapsto> cam\<lparr>cam_status := ''online''\<rparr>),
             Some a0)"
      using assms(1,2,3) ac [unfolded vf_def] l
      by (simp add: process_camera_stream_def Let_def vf_def del: stream_loop.simps)
    then show ?thesis using fresh by simp
  qed
qed

lemma Max_insert_zero:
  fixes C :: "real list"
  assumes "\<forall>c\<in>set C. 0 \<le> c"
  shows "Max (insert 0 (set C)) = (if C = [] then 0 else Max (set C))"
proof (cases "C = []")
  case True then show ?thesis by simp
next
  case False
  then have ne: "set C \<noteq> {}" by simp
  then have "Max (set C) \<in> set C" by (simp add: Max_in)
  then have "0 \<le> Max (set C)" using assms by blast
  then show ?thesis using False ne by simp
qed

section \<open>Facts about the example inputs\<close>

lemma ex_det: "get_detector example_manager (Some ''fire_smoke'') = Inr example_detector"
  by (simp add: get_detector_def example_manager_def model_manager_init_def)

lemma ex_cfg: "get_detector_config example_manager ''fire_smoke''
   = \<lparr>conf_threshold = 0.25, iou_threshold = 0.45, image_size = 640\<rparr>"
  by (simp add: get_detector_config_def example_manager_def model_manager_init_def)

lemma ex_clip: "video_capture example_world ''clip.mp4'' = Some [1, 2, 3, 4, 5, 6, 7, 8, 9, 10, 11, 12, 13, 14, 15]"
  by (simp add: example_world_def)

lemma ex_cleared_clip:
  "cleared_confidences example_detector 0.25 0.45 640 5 0 [1, 2, 3, 4, 5, 6, 7, 8, 9, 10, 11, 12, 13, 14, 15]
     = [0.6, 0.95, 0.3]"
  by (simp add: frame_confidences_def example_detector_def box_confidences_def)

lemma ex_cam1: "example_cameras 1 = Some (example_camera 1 ''rtsp://cam/1'')"
  by (simp add: example_cameras_def)

lemma ex_url1: "get_stream_url (example_camera 1 ''rtsp://cam/1'') = ''rtsp://cam/1''"
  by (simp add: get_stream_url_def example_camera_def truthy_def)

lemma ex_stream1: "video_capture example_world ''rtsp://cam/1'' = Some [1, 2, 3, 4, 5, 6, 7, 8, 9, 10, 11, 12]"
  by (simp add: example_world_def)

lemma ex_read1: "frames_read (elapsed example_world) 60 10 0 [1, 2, 3, 4, 5, 6, 7, 8, 9, 10, 11, 12 :: nat]
   = [1, 2, 3, 4, 5, 6, 7, 8, 9, 10]"
  by (simp add: example_world_def)

lemma ex_cleared_1:
  "cleared_confidences example_detector 0.25 0.45 640 5 0 [1, 2, 3, 4, 5, 6, 7, 8, 9, 10]
     = [0.6, 0.95, 0.3]"
  by (simp add: frame_confidences_def example_detector_def box_confidences_def)

lemma ex_cam2: "example_cameras 2 = Some (example_camera 2 ''rtsp://cam/2'')"
  by (simp add: example_cameras_def)

lemma ex_url2: "get_stream_url (example_camera 2 ''rtsp://cam/2'') = ''rtsp://cam/2''"
  by (simp add: get_stream_url_def example_camera_def truthy_def)

lemma ex_stream2: "video_capture example_world ''rtsp://cam/2'' = Some [1, 2, 3, 4]"
  by (simp add: example_world_def)

lemma ex_quiet: "video_capture example_world ''quiet.mp4'' = Some [1, 2, 3, 4]"
  by (simp add: example_world_def)

lemma ex_read2: "frames_read (elapsed example_world) 60 10 0 [1, 2, 3, 4 :: nat] = [1, 2, 3, 4]"
  by (simp add: example_world_def)

lemma ex_cleared_quiet:
  "cleared_confidences example_detector 0.25 0.45 640 5 0 [1, 2, 3, 4] = []"
  by (simp add: frame_confidences_def example_detector_def box_confidences_def)

lemma ex_rate: "frame_rate (example_camera i u) = 5"
  by (simp add: example_camera_def)

lemma ex_max: "Max (set [0.6, 0.95, 0.3 :: real]) = 0.95"
  by simp

lemma score_frame_alert:
  "alert (score_frame det thr iou sz frame st) = alert st \<or>
   (\<exists>c. c > confidence (alert st) \<and>
        alert (score_frame det thr iou sz frame st) = update_alert c (alert st))"
proof (cases "predict_video_frame det frame thr iou sz")
  case (Inl e)
  then show ?thesis by (simp add: score_frame_def)
next
  case (Inr p)
  obtain annotated results where p: "p = (annotated, results)" by (cases p)
  obtain has c st1 where cr: "check_results thr results ((False, 0), st) = ((has, c), st1)"
    by (metis surj_pair)
  have al: "alert st1 = alert st" using check_results_effect [OF cr] by blast
  have sf: "score_frame det thr iou sz frame st =
            (let st2 = st1\<lparr>out := out st1 @ [annotated]\<rparr>
             in if has \<and> c > confidence (alert st2)
                then st2\<lparr>alert := update_alert c (alert st2)\<rparr> else st2)"
    using Inr p cr by (simp add: score_frame_def)
  show ?thesis
  proof (cases "has \<and> c > confidence (alert st)")
    case True
    then have "alert (score_frame det thr iou sz frame st) = update_alert c (alert st)"
      using sf al by (simp add: Let_def)
    with True show ?thesis by blast
  next
    case False
    then have "alert (score_frame det thr iou sz frame st) = alert st"
      using sf al by (auto simp add: Let_def)
    then show ?thesis by blast
  qed
qed

lemma handle_frame_alert:
  assumes "handle_frame det thr iou sz stride frame st = Inr st'"
  shows "alert st' = alert st \<or>
         (\<exists>c. c > confidence (alert st) \<and> alert st' = update_alert c (alert st))"
proof (cases "stride = 0")
  case True
  with assms show ?thesis by (simp add: handle_frame_def)
next
  case False
  show ?thesis
  proof (cases "(frame_count st + 1) mod stride = 0")
    case True
    with assms False have
      "st' = score_frame det thr iou sz frame (st\<lparr>frame_count := frame_count st + 1\<rparr>)"
      by (simp add: handle_frame_def)
    then show ?thesis
      using score_frame_alert [of det thr iou sz frame "st\<lparr>frame_count := frame_count st + 1\<rparr>"]
      by simp
  next
    case F: False
    with assms False have "st' = st\<lparr>frame_count := frame_count st + 1,
        out := out st @ [frame]\<rparr>"
      by (simp add: handle_frame_def)
    then show ?thesis by simp
  qed
qed

lemma severity_rank_values:
  "severity_rank ''low'' = Some 1" "severity_rank ''medium'' = Some 2"
  "severity_rank ''high'' = Some 3" "severity_rank ''critical'' = Some 4"
  by (simp_all add: severity_rank_def)

lemma rank_of_severity:
  "rank_get (severity_for_confidence c) d =
     (if c \<ge> 0.9 then 4 else if c \<ge> 0.7 then 3 else if c \<ge> 0.5 then 2 else 1)"
  by (simp add: rank_get_def severity_for_confidence_def severity_rank_values)

lemma ex_handle:
  "handle_frame example_detector 0.25 0.45 640 5 10 example_state =
     Inr (example_state\<lparr> frame_count := 10,
            detection_frames := [10], detection_confidences := [0.95], detection_count := 1,
            out := [110],
            alert := update_alert 0.95 (alert example_state) \<rparr>)"
  by (simp add: handle_frame_def score_frame_def example_detector_def example_state_def
        run_init_def Let_def)

lemma ex_lower: "lower example_world s = s" by (simp add: example_world_def)
lemma ex_name: "det_name example_detector = ''Fire and Smoke''" by (simp add: example_detector_def)

lemma ex_qh: "quiet_hours_enabled example_settings"
  "quiet_hours_start example_settings = (22, 0, 0, 0)"
  "quiet_hours_end example_settings = (7, 0, 0, 0)"
  by (simp_all add: example_settings_def)

lemma ex_overnight: "in_quiet_hours example_settings (23, 30, 0, 0)"
  "in_quiet_hours example_settings (6, 59, 59, 0)"
  "\<not> in_quiet_hours example_settings (12, 30, 0, 0)"
  by (simp_all add: in_quiet_hours_def ex_qh)

lemma ex_sameday:
  "in_quiet_hours (example_settings\<lparr>quiet_hours_start := (13, 0, 0, 0), quiet_hours_end := (14, 0, 0, 0)\<rparr>) (13, 30, 0, 0)"
  by (simp add: in_quiet_hours_def)

lemma ex_elig_medium:
  "channel_eligibility example_settings (example_alert ''fire_smoke'' ''medium'') = (True, False, False)"
  by (simp add: channel_eligibility_def severity_filter_def type_toggles_def example_settings_def
      example_alert_def rank_get_def severity_rank_def)

lemma ex_elig_critical:
  "channel_eligibility example_settings (example_alert ''fire_smoke'' ''critical'') = (True, False, True)"
  by (simp add: channel_eligibility_def severity_filter_def type_toggles_def example_settings_def
      example_alert_def rank_get_def severity_rank_def)

lemma quiet_hours_filter_cases:
  "quiet_hours_filter ns t sev should = (False, False, False) \<or>
   quiet_hours_filter ns t sev should = should"
  by (simp add: quiet_hours_filter_def Let_def)

lemma should_send_le:
  "pick ch (should_send ns t a) \<Longrightarrow> pick ch (channel_eligibility ns a)"
  using quiet_hours_filter_cases [of ns t "severity a" "channel_eligibility ns a"]
  by (cases ch) (auto simp add: should_send_def)

lemma ex_sms_off: "\<not> channel_enabled example_settings Sms"
  "type_toggle example_settings Sms ''fire_smoke'' = Some True"
  "min_severity_rank example_settings Sms \<le> rank_get ''critical'' 2"
  by (simp_all add: example_settings_def rank_get_def severity_rank_def)

lemma ex_push_on: "channel_enabled example_settings Push"
  "type_toggle example_settings Push ''fire_smoke'' = Some True"
  "min_severity_rank example_settings Push \<le> rank_get ''critical'' 2"
  "type_toggle example_settings Push ''fall'' = Some False"
  "\<not> min_severity_rank example_settings Push \<le> rank_get ''medium'' 2"
  by (simp_all add: example_settings_def rank_get_def severity_rank_def)

lemma ex_alert_fields: "alert_type (example_alert ty sev) = ty" "severity (example_alert ty sev) = sev"
  by (simp_all add: example_alert_def)

lemma email_channel_attempt:
  "email_channel env u t m aid db = db @ attempt_writes env u t m aid Email (next_pk db)"
  by (simp add: email_channel_def attempt_writes_def Let_def split: option.splits)

lemma sms_channel_attempt:
  "sms_channel env u t m aid db = db @ attempt_writes env u t m aid Sms (next_pk db)"
  by (simp add: sms_channel_def attempt_writes_def Let_def split: option.splits)

lemma push_channel_attempt:
  "push_channel env u t m aid db = db @ attempt_writes env u t m aid Push (next_pk db)"
  by (simp add: push_channel_def attempt_writes_def Let_def split: option.splits)

lemma next_pk_append: "next_pk (xs @ ys) = next_pk xs + next_pk ys"
  by (simp add: next_pk_def)

lemma next_pk_attempt: "next_pk (attempt_writes env u t m aid ch pk) = 1"
  by (simp add: next_pk_def attempt_writes_def Let_def)

lemma dispatch_attempts:
  "dispatch env cam u aid a should db =
     db @ attempts env u (notification_title a) (notification_message env cam a) aid
            (attempted u should) (next_pk db)"
proof -
  obtain e s p where sh: "should = (e, s, p)" by (cases should)
  show ?thesis
    unfolding sh dispatch_def attempted_def
    by (cases e; cases s; cases p; cases "truthy (phone_number u)")
       (simp_all add: Let_def email_channel_attempt sms_channel_attempt push_channel_attempt
          next_pk_append next_pk_attempt)
qed

lemma attempts_pending:
  "ch \<in> set chs \<Longrightarrow>
     Insert (new_log u t m (channel_name ch) aid) \<in> set (attempts env u t m aid chs pk)"
  by (induction chs arbitrary: pk) (auto simp add: attempt_writes_def Let_def)

lemma ex_env:
  "camera example_critical = Some 1"
  "cameras example_notif_env 1 = Some (example_camera 1 ''rtsp://cam/1'')"
  "users example_notif_env (cam_user (example_camera 1 ''rtsp://cam/1'')) = Some example_user"
  "settings example_notif_env (user_id example_user) = Some example_settings"
  "snd (now example_notif_env) = (12, 30, 0, 0)"
  by (simp_all add: example_critical_def example_alert_def example_notif_env_def
        example_cameras_def example_camera_def example_user_def)

lemma ex_should:
  "should_send example_settings (12, 30, 0, 0) example_critical = (True, False, True)"
  by (simp add: should_send_def quiet_hours_filter_def ex_qh ex_elig_critical
        example_critical_def Let_def)

lemma ex_attempted: "attempted example_user (True, False, True) = [Email, Push]"
  by (simp add: attempted_def)

lemma ex_attempts:
  "attempts example_notif_env example_user t m 5 [Email, Push] 0 =
     [Insert (new_log example_user t m ''email'' 5),
      Update 0 ((new_log example_user t m ''email'' 5)
                  \<lparr>log_status := ''failed'', error_message := Some ''SMTP refused''\<rparr>),
      Insert (new_log example_user t m ''push'' 5),
      Update 1 ((new_log example_user t m ''push'' 5)
                  \<lparr>log_status := ''sent'', sent_at := Some (100, (12, 30, 0, 0))\<rparr>)]"
  by (simp add: attempt_writes_def example_notif_env_def Let_def)

lemma frame_result_uniform:
  "uniform_result (frame_result ok msg PNone)" "uniform_result (frame_result ok msg (PFrame f))"
  by (auto simp add: uniform_result_def frame_result_def)

lemma try_except_Inr:
  assumes "\<And>d. body = Inr d \<Longrightarrow> P d" "\<And>e. \<exists>d. handler e = Inr d \<and> P d"
  shows "\<exists>d. try_except body handler = Inr d \<and> P d"
  using assms by (cases body) (auto simp add: try_except_def)

lemma url_with_auth_raises: "url_with_auth cam = Inl (AttributeError no_attribute_url)"
  by (simp add: url_with_auth_def camera_url_def and_then_def)

lemma device_index_raises: "device_index cam = Inl (AttributeError no_attribute_url)"
  by (simp add: device_index_def camera_url_def and_then_def)

lemma capture_rtsp_frame_uniform:
  "\<exists>d. capture_rtsp_frame env cam = Inr d \<and> uniform_result d"
  unfolding capture_rtsp_frame_def
  by (rule try_except_Inr)
     (auto simp add: and_then_def frame_result_uniform split: sum.splits if_splits option.splits)

lemma capture_http_frame_uniform:
  "\<exists>d. capture_http_frame env cam = Inr d \<and> uniform_result d"
  unfolding capture_http_frame_def
  by (rule try_except_Inr)
     (auto simp add: and_then_def frame_result_uniform split: sum.splits if_splits option.splits)

lemma capture_local_frame_uniform:
  "\<exists>d. capture_local_frame env cam = Inr d \<and> uniform_result d"
  unfolding capture_local_frame_def
  by (rule try_except_Inr)
     (auto simp add: and_then_def frame_result_uniform split: sum.splits if_splits option.splits)

lemma capture_file_frame_uniform:
  "\<exists>d. capture_file_frame env cam = Inr d \<and> uniform_result d"
  unfolding capture_file_frame_def
  by (rule try_except_Inr)
     (auto simp add: and_then_def frame_result_uniform Let_def
        split: sum.splits if_splits option.splits)

lemma ex_cam_rtsp:
  "camera_type (example_camera i u) = ''rtsp''"
  "cam_status (example_camera i u) = ''offline''"
  by (simp_all add: example_camera_def)


lemma capture_rtsp_on_camera:
  "capture_rtsp_frame env cam
     = Inr (frame_result False (''RTSP frame capture error: '' @ no_attribute_url) PNone)"
  by (simp add: capture_rtsp_frame_def url_with_auth_raises try_except_def and_then_def)




text \<open>
  \<^verbatim>\<open>_get_input_url\<close> raises for every camera: it reads \<^verbatim>\<open>camera.url\<close> or rejects
  the type.  So \<^verbatim>\<open>start\<close> launches no child: it ends in its \<^verbatim>\<open>except\<close> branch
  and returns \<^verbatim>\<open>False\<close>.
\<close>

lemma get_input_url_raises: "\<exists>e. get_input_url env cam = Inl e"
  by (simp add: get_input_url_def url_with_auth_raises device_index_raises camera_url_def
        and_then_def)



lemma stop_process: "process (stop env st) = None"
proof (cases "process st")
  case None
  then show ?thesis by (simp add: stop_def)
next
  case (Some p)
  obtain r st' where c: "stop_child env p st = (r, st')" by (cases "stop_child env p st")
  show ?thesis using Some c by (cases r) (simp_all add: stop_def)
qed

lemma stop_stop: "stop env' (stop env st) = stop env st"
  using stop_process [of env st] by (simp add: stop_def [of env' "stop env st"])

lemma start_steps_no_launch:
  "start_steps env cam st = (False, [stop env st, stop env st])"
proof -
  obtain e where "get_input_url env cam = Inl e" using get_input_url_raises by blast
  then show ?thesis by (simp add: start_steps_def Let_def stop_stop split: option.splits)
qed

lemma start_launches_nothing:
  "start env cam st = (False, stop env st)"
  by (simp add: start_def start_steps_no_launch)


text \<open>
  What \<^verbatim>\<open>stop\<close> does to a live child of the handle.  When the child exits within
  the timeout it is gone at the return.  When it does not, \<^verbatim>\<open>kill()\<close> follows and is
  not waited for: the handle is cleared while the child is still among the live ones.
\<close>

lemma stop_terminates_child:
  assumes "process st = Some p" "p \<in> set (live st)" "proc_terminate env p = None"
    "proc_wait env p = Exited"
  shows "stop env st = st\<lparr>stop_event := True, signals := signals st @ [(p, ''terminate'')],
                           live := removeAll p (live st), is_running := False, process := None\<rparr>"
  using assms by (simp add: stop_def stop_child_def Let_def)

lemma stop_kill_not_awaited:
  assumes "process st = Some p" "p \<in> set (live st)" "proc_terminate env p = None"
    "proc_wait env p = TimeoutExpired" "proc_kill env p = None"
  shows "stop env st = st\<lparr>stop_event := True,
                           signals := signals st @ [(p, ''terminate''), (p, ''kill'')],
                           is_running := False, process := None\<rparr>"
    and "p \<in> set (live (stop env st))"
  using assms by (simp_all add: stop_def stop_child_def Let_def)

lemma stop_exception_keeps_running:
  assumes "process st = Some p" "p \<in> set (live st)" "proc_terminate env p = Some e"
  shows "stop env st = st\<lparr>stop_event := True, process := None\<rparr>"
  using assms by (simp add: stop_def stop_child_def Let_def)

section \<open>Alert confidence after a run\<close>

text \<open>
  C1.  A run of \<open>process_video\<close> on a file that opens, for a camera of the table, returns
  an alert whose confidence is the largest detection confidence that was at least the
  threshold on a scored frame, and 0 when there was none.  A run of
  \<open>process_camera_stream\<close> on a stream that opens leaves the row of its alert with that
  confidence, and returns this alert when the camera's frame rate is not zero; with the
  frame rate zero no frame is scored.  The scored frames are the frames read whose
  number is a multiple of the stride (5 for a file, the camera's frame rate for a
  stream) and on which the detector did not raise.  Confidences are taken to be
  non-negative, as scores are.
\<close>

theorem alert_confidence_is_max_cleared:
  "(get_detector mm (Some key) = Inr det \<longrightarrow>
    video_capture w path = Some frames \<longrightarrow>
    camera_id = Some i \<longrightarrow> i \<noteq> 0 \<longrightarrow> cams i = Some c \<longrightarrow>
    (let C = cleared_confidences det thr iou sz 5 0 frames
     in (\<forall>c\<in>set C. 0 \<le> c) \<longrightarrow>
        (\<exists>p a. process_video w mm cams path key thr iou sz camera_id = Inr (p, a) \<and>
               confidence a = (if C = [] then 0 else Max (set C))))) \<and>
   (cams camera_id' = Some cam \<longrightarrow>
    get_detector mm (Some key) = Inr det \<longrightarrow>
    video_capture w (get_stream_url cam) = Some frames' \<longrightarrow>
    (let config = get_detector_config mm key;
         C = cleared_confidences det (conf_threshold config) (iou_threshold config)
               (image_size config) (frame_rate cam) 0
               (frames_read (elapsed w) duration frame_limit 0 frames')
     in (\<forall>c\<in>set C. 0 \<le> c) \<longrightarrow>
        (\<exists>a. snd (snd (process_camera_stream w mm cams camera_id' key duration frame_limit))
                 = Some a \<and>
             confidence a = (if C = [] then 0 else Max (set C)) \<and>
             (frame_rate cam \<noteq> 0 \<longrightarrow>
                (\<exists>p. fst (process_camera_stream w mm cams camera_id' key duration frame_limit)
                        = Inr (p, a))))))"
proof (intro conjI impI)
  assume d: "get_detector mm (Some key) = Inr det" and v: "video_capture w path = Some frames"
    and ci: "camera_id = Some i" "i \<noteq> 0" "cams i = Some c"
  show "let C = cleared_confidences det thr iou sz 5 0 frames
     in (\<forall>c\<in>set C. 0 \<le> c) \<longrightarrow>
        (\<exists>p a. process_video w mm cams path key thr iou sz camera_id = Inr (p, a) \<and>
               confidence a = (if C = [] then 0 else Max (set C)))"
    unfolding Let_def
  proof
    assume nn: "\<forall>c\<in>set (cleared_confidences det thr iou sz 5 0 frames). 0 \<le> c"
    have "\<exists>p st. process_video w mm cams path key thr iou sz camera_id
            = Inr (p, finish_run w det path ''the video.'' st) \<and>
         confidence (alert st) = Max (insert 0 (set (cleared_confidences det thr iou sz 5 0 frames))) \<and>
         (0 < detection_count st \<longleftrightarrow> cleared_confidences det thr iou sz 5 0 frames \<noteq> []) \<and>
         status (alert st) = ''new''"
      by (rule process_video_run) (fact d v ci)+
    then obtain p st where
      r: "process_video w mm cams path key thr iou sz camera_id
            = Inr (p, finish_run w det path ''the video.'' st)" and
      c: "confidence (alert st) = Max (insert 0 (set (cleared_confidences det thr iou sz 5 0 frames)))"
      by blast
    have "confidence (finish_run w det path ''the video.'' st) =
          (if cleared_confidences det thr iou sz 5 0 frames = [] then 0
           else Max (set (cleared_confidences det thr iou sz 5 0 frames)))"
      unfolding finish_run_confidence c by (rule Max_insert_zero [OF nn])
    with r show "\<exists>p a. process_video w mm cams path key thr iou sz camera_id = Inr (p, a) \<and>
               confidence a = (if cleared_confidences det thr iou sz 5 0 frames = [] then 0
                 else Max (set (cleared_confidences det thr iou sz 5 0 frames)))"
      by blast
  qed
next
  assume cm: "cams camera_id' = Some cam" and d: "get_detector mm (Some key) = Inr det"
    and v: "video_capture w (get_stream_url cam) = Some frames'"
  define C where "C = cleared_confidences det (conf_threshold (get_detector_config mm key))
               (iou_threshold (get_detector_config mm key))
               (image_size (get_detector_config mm key)) (frame_rate cam) 0
               (frames_read (elapsed w) duration frame_limit 0 frames')"
  let ?run = "process_camera_stream w mm cams camera_id' key duration frame_limit"
  have main: "(\<forall>c\<in>set C. 0 \<le> c) \<longrightarrow>
        (\<exists>a. snd (snd ?run) = Some a \<and>
             confidence a = (if C = [] then 0 else Max (set C)) \<and>
             (frame_rate cam \<noteq> 0 \<longrightarrow> (\<exists>p. fst ?run = Inr (p, a))))"
  proof
    assume nn: "\<forall>c\<in>set C. 0 \<le> c"
    show "\<exists>a. snd (snd ?run) = Some a \<and>
             confidence a = (if C = [] then 0 else Max (set C)) \<and>
             (frame_rate cam \<noteq> 0 \<longrightarrow> (\<exists>p. fst ?run = Inr (p, a)))"
    proof (cases "frame_rate cam = 0")
      case True
      have "\<exists>a. snd (snd ?run) = Some a \<and> confidence a = 0 \<and>
             (frames' \<noteq> [] \<longrightarrow> fst ?run = Inl ZeroDivisionError \<and> status a = ''new'')"
        by (rule process_camera_stream_zero_rate) (fact cm d v True)+
      moreover have "C = []" unfolding C_def True by (rule cleared_zero_stride)
      ultimately show ?thesis using True by auto
    next
      case False
      have "\<exists>p st. fst ?run = Inr (p, finish_run w det p ''the camera stream.'' st) \<and>
           snd (snd ?run) = Some (finish_run w det p ''the camera stream.'' st) \<and>
           confidence (alert st) = Max (insert 0 (set C)) \<and>
           (0 < detection_count st \<longleftrightarrow> C \<noteq> []) \<and>
           status (alert st) = ''new''"
        by (rule process_camera_stream_run) (fact cm d v False C_def)+
      then obtain p st where
        r: "fst ?run = Inr (p, finish_run w det p ''the camera stream.'' st)" and
        r2: "snd (snd ?run) = Some (finish_run w det p ''the camera stream.'' st)" and
        c: "confidence (alert st) = Max (insert 0 (set C))"
        by blast
      have "confidence (finish_run w det p ''the camera stream.'' st) =
            (if C = [] then 0 else Max (set C))"
        unfolding finish_run_confidence c by (rule Max_insert_zero [OF nn])
      with r r2 show ?thesis by blast
    qed
  qed
  show "let config = get_detector_config mm key;
         C = cleared_confidences det (conf_threshold config) (iou_threshold config)
               (image_size config) (frame_rate cam) 0
               (frames_read (elapsed w) duration frame_limit 0 frames')
     in (\<forall>c\<in>set C. 0 \<le> c) \<longrightarrow>
        (\<exists>a. snd (snd (process_camera_stream w mm cams camera_id' key duration frame_limit))
                 = Some a \<and>
             confidence a = (if C = [] then 0 else Max (set C)) \<and>
             (frame_rate cam \<noteq> 0 \<longrightarrow>
                (\<exists>p. fst (process_camera_stream w mm cams camera_id' key duration frame_limit)
                        = Inr (p, a))))"
    unfolding Let_def using main unfolding C_def .
qed

theorem alert_confidence_is_max_cleared_witness:
  "get_detector example_manager (Some ''fire_smoke'') = Inr example_detector \<and>
   video_capture example_world ''clip.mp4'' = Some [1, 2, 3, 4, 5, 6, 7, 8, 9, 10, 11, 12, 13, 14, 15] \<and>
   example_cameras 1 = Some (example_camera 1 ''rtsp://cam/1'') \<and>
   cleared_confidences example_detector 0.25 0.45 640 5 0
     [1, 2, 3, 4, 5, 6, 7, 8, 9, 10, 11, 12, 13, 14, 15] = [0.6, 0.95, 0.3] \<and>
   list_all (\<lambda>c. 0 \<le> c) [0.6, 0.95, 0.3 :: real] \<and>
   (\<exists>p a. process_video example_world example_manager example_cameras ''clip.mp4''
              ''fire_smoke'' 0.25 0.45 640 (Some 1) = Inr (p, a) \<and> confidence a = 0.95) \<and>
   video_capture example_world (get_stream_url (example_camera 1 ''rtsp://cam/1''))
     = Some [1, 2, 3, 4, 5, 6, 7, 8, 9, 10, 11, 12] \<and>
   frame_rate (example_camera 1 ''rtsp://cam/1'') \<noteq> 0 \<and>
   (\<exists>p a. fst (process_camera_stream example_world example_manager example_cameras 1
                  ''fire_smoke'' 60 10) = Inr (p, a) \<and>
          snd (snd (process_camera_stream example_world example_manager example_cameras 1
                  ''fire_smoke'' 60 10)) = Some a \<and> confidence a = 0.95)"
proof -
  note T = alert_confidence_is_max_cleared
    [where mm = example_manager and key = "''fire_smoke''" and det = example_detector
       and w = example_world and path = "''clip.mp4''"
       and frames = "[1, 2, 3, 4, 5, 6, 7, 8, 9, 10, 11, 12, 13, 14, 15]"
       and thr = "0.25" and iou = "0.45" and sz = 640 and cams = example_cameras
       and camera_id = "Some 1" and i = 1 and c = "example_camera 1 ''rtsp://cam/1''"
       and camera_id' = 1
       and cam = "example_camera 1 ''rtsp://cam/1''"
       and frames' = "[1, 2, 3, 4, 5, 6, 7, 8, 9, 10, 11, 12]"
       and duration = 60 and frame_limit = 10]
  have nn: "\<forall>c\<in>set [0.6, 0.95, 0.3 :: real]. 0 \<le> c" by simp
  have one: "(1::nat) \<noteq> 0" by simp
  have filemode: "\<exists>p a. process_video example_world example_manager example_cameras ''clip.mp4''
              ''fire_smoke'' 0.25 0.45 640 (Some 1) = Inr (p, a) \<and> confidence a = 0.95"
    using T [THEN conjunct1, rule_format, OF ex_det ex_clip refl one ex_cam1] nn
    by (simp only: ex_cleared_clip Let_def ex_max) simp
  have live: "\<exists>a. snd (snd (process_camera_stream example_world example_manager
                   example_cameras 1 ''fire_smoke'' 60 10)) = Some a \<and> confidence a = 0.95 \<and>
                 (\<exists>p. fst (process_camera_stream example_world example_manager example_cameras 1
                  ''fire_smoke'' 60 10) = Inr (p, a))"
    using T [THEN conjunct2] nn
    by (simp only: ex_det ex_cam1 ex_url1 ex_stream1 ex_rate ex_cfg ex_read1 ex_cleared_1
          Let_def ex_max detector_config.simps) simp
  then have live': "\<exists>p a. fst (process_camera_stream example_world example_manager example_cameras 1
                  ''fire_smoke'' 60 10) = Inr (p, a) \<and>
          snd (snd (process_camera_stream example_world example_manager example_cameras 1
                  ''fire_smoke'' 60 10)) = Some a \<and> confidence a = 0.95"
    by blast
  have la: "list_all (\<lambda>c. 0 \<le> c) [0.6, 0.95, 0.3 :: real]" by simp
  show ?thesis
    using filemode live' la
    by (simp only: ex_det ex_clip ex_cleared_clip ex_cam1 ex_url1 ex_stream1 ex_rate) simp
qed

section \<open>Severity and confidence\<close>

text \<open>
  C2.  Whenever the body of a frame loop changes the alert's confidence, the confidence
  has grown and the severity stored with it is the ladder's value for the new
  confidence: critical from 0.9, high from 0.7, medium from 0.5, low below.  The ladder
  is monotone in the ranks the notification engine gives the severities
  (low 1, medium 2, high 3, critical 4): a larger confidence never has a smaller rank.
\<close>

theorem severity_follows_confidence:
  "(handle_frame det thr iou sz stride frame st = Inr st' \<longrightarrow>
    confidence (alert st') \<noteq> confidence (alert st) \<longrightarrow>
      confidence (alert st) < confidence (alert st') \<and>
      severity (alert st') = severity_for_confidence (confidence (alert st'))) \<and>
   severity_for_confidence c =
     (if c \<ge> 0.9 then ''critical'' else if c \<ge> 0.7 then ''high''
      else if c \<ge> 0.5 then ''medium'' else ''low'') \<and>
   severity_rank (severity_for_confidence c) \<noteq> None \<and>
   (c2 \<le> c1 \<longrightarrow>
      rank_get (severity_for_confidence c2) 2 \<le> rank_get (severity_for_confidence c1) 2)"
proof (intro conjI impI)
  assume h: "handle_frame det thr iou sz stride frame st = Inr st'"
    and ne: "confidence (alert st') \<noteq> confidence (alert st)"
  from handle_frame_alert [OF h] ne obtain c where
    c: "c > confidence (alert st)" and a: "alert st' = update_alert c (alert st)"
    by auto
  show "confidence (alert st) < confidence (alert st')"
    using c a by (simp add: update_alert_def)
  show "severity (alert st') = severity_for_confidence (confidence (alert st'))"
    using a by (simp add: update_alert_def)
next
  show "severity_for_confidence c =
     (if c \<ge> 0.9 then ''critical'' else if c \<ge> 0.7 then ''high''
      else if c \<ge> 0.5 then ''medium'' else ''low'')"
    by (simp add: severity_for_confidence_def)
next
  show "severity_rank (severity_for_confidence c) \<noteq> None"
    by (simp add: severity_for_confidence_def severity_rank_values)
next
  assume "c2 \<le> c1"
  then show "rank_get (severity_for_confidence c2) 2 \<le> rank_get (severity_for_confidence c1) 2"
    unfolding rank_of_severity by auto
qed

theorem severity_follows_confidence_witness:
  "handle_frame example_detector 0.25 0.45 640 5 10 example_state =
     Inr (example_state\<lparr> frame_count := 10,
            detection_frames := [10], detection_confidences := [0.95], detection_count := 1,
            out := [110],
            alert := update_alert 0.95 (alert example_state) \<rparr>) \<and>
   confidence (update_alert 0.95 (alert example_state)) \<noteq> confidence (alert example_state) \<and>
   confidence (alert example_state) < 0.95 \<and>
   severity (update_alert 0.95 (alert example_state)) = ''critical'' \<and>
   (0.6::real) \<le> 0.95 \<and>
   rank_get (severity_for_confidence 0.6) 2 = 2 \<and>
   rank_get (severity_for_confidence 0.95) 2 = 4 \<and>
   rank_get (severity_for_confidence 0.6) 2 \<le> rank_get (severity_for_confidence 0.95) 2"
proof -
  note T = severity_follows_confidence
    [where det = example_detector and thr = "0.25" and iou = "0.45" and sz = 640
       and stride = 5 and frame = 10 and st = example_state
       and st' = "example_state\<lparr> frame_count := 10,
            detection_frames := [10], detection_confidences := [0.95], detection_count := 1,
            out := [110],
            alert := update_alert 0.95 (alert example_state) \<rparr>"
       and c = "0.95" and ?c2.0 = "0.6" and ?c1.0 = "0.95"]
  have ne: "confidence (update_alert 0.95 (alert example_state)) \<noteq> confidence (alert example_state)"
    by (simp add: update_alert_def example_state_def run_init_def)
  have le: "(0.6::real) \<le> 0.95" by simp
  have a: "confidence (alert example_state) < 0.95 \<and>
           severity (update_alert 0.95 (alert example_state)) = ''critical''"
    using T [THEN conjunct1, rule_format, OF ex_handle] ne
    by (simp add: update_alert_def severity_for_confidence_def)
  have m: "rank_get (severity_for_confidence 0.6) 2 \<le> rank_get (severity_for_confidence 0.95) 2"
    using T [THEN conjunct2, THEN conjunct2, THEN conjunct2, rule_format, OF le] .
  have r: "rank_get (severity_for_confidence 0.6) 2 = 2" "rank_get (severity_for_confidence 0.95) 2 = 4"
    by (simp_all add: rank_of_severity)
  show ?thesis using ex_handle ne le a m r by (intro conjI) simp_all
qed

section \<open>Runs without a detection\<close>

text \<open>
  A run that completes returns an alert whose status is \<^verbatim>\<open>false_positive\<close>, with the
  description that nothing was detected, when no detection on a scored frame cleared the
  threshold; the status is then not \<^verbatim>\<open>new\<close>.  When at least one detection
  cleared the threshold the status is still \<^verbatim>\<open>new\<close>.  A run of \<open>process_video\<close>
  completes when the file opens and the camera is in the table; a run of
  \<open>process_camera_stream\<close> completes when the stream opens and the frame rate of the
  camera is not zero.
\<close>

lemma completed_run_disposition:
  "(get_detector mm (Some key) = Inr det \<longrightarrow>
    video_capture w path = Some frames \<longrightarrow>
    camera_id = Some i \<longrightarrow> i \<noteq> 0 \<longrightarrow> cams i = Some c \<longrightarrow>
    (let C = cleared_confidences det thr iou sz 5 0 frames
     in \<exists>p a. process_video w mm cams path key thr iou sz camera_id = Inr (p, a) \<and>
               (C = [] \<longrightarrow> status a = ''false_positive'' \<and> status a \<noteq> ''new'' \<and>
                  description a = ''No '' @ lower w (det_name det) @ '' detected in the video.'') \<and>
               (C \<noteq> [] \<longrightarrow> status a = ''new''))) \<and>
   (cams camera_id' = Some cam \<longrightarrow>
    get_detector mm (Some key) = Inr det \<longrightarrow>
    video_capture w (get_stream_url cam) = Some frames' \<longrightarrow>
    frame_rate cam \<noteq> 0 \<longrightarrow>
    (let config = get_detector_config mm key;
         C = cleared_confidences det (conf_threshold config) (iou_threshold config)
               (image_size config) (frame_rate cam) 0
               (frames_read (elapsed w) duration frame_limit 0 frames')
     in \<exists>p a. fst (process_camera_stream w mm cams camera_id' key duration frame_limit)
                 = Inr (p, a) \<and>
               (C = [] \<longrightarrow> status a = ''false_positive'' \<and> status a \<noteq> ''new'' \<and>
                  description a =
                    ''No '' @ lower w (det_name det) @ '' detected in the camera stream.'') \<and>
               (C \<noteq> [] \<longrightarrow> status a = ''new'')))"
proof (intro conjI impI)
  assume d: "get_detector mm (Some key) = Inr det" and v: "video_capture w path = Some frames"
    and ci: "camera_id = Some i" "i \<noteq> 0" "cams i = Some c"
  define C where "C = cleared_confidences det thr iou sz 5 0 frames"
  have "\<exists>p st. process_video w mm cams path key thr iou sz camera_id
            = Inr (p, finish_run w det path ''the video.'' st) \<and>
         confidence (alert st) = Max (insert 0 (set (cleared_confidences det thr iou sz 5 0 frames))) \<and>
         (0 < detection_count st \<longleftrightarrow> cleared_confidences det thr iou sz 5 0 frames \<noteq> []) \<and>
         status (alert st) = ''new''"
    by (rule process_video_run) (fact d v ci)+
  then obtain p st where
    r: "process_video w mm cams path key thr iou sz camera_id
          = Inr (p, finish_run w det path ''the video.'' st)" and
    n: "(0 < detection_count st) = (C \<noteq> [])" and
    s: "status (alert st) = ''new''"
    unfolding C_def by blast
  have "(C = [] \<longrightarrow> status (finish_run w det path ''the video.'' st) = ''false_positive'' \<and>
           status (finish_run w det path ''the video.'' st) \<noteq> ''new'' \<and>
           description (finish_run w det path ''the video.'' st)
             = ''No '' @ lower w (det_name det) @ '' detected in the video.'') \<and>
        (C \<noteq> [] \<longrightarrow> status (finish_run w det path ''the video.'' st) = ''new'')"
    using n s by (simp add: finish_run_status finish_run_description)
  with r have "\<exists>p a. process_video w mm cams path key thr iou sz camera_id = Inr (p, a) \<and>
               (C = [] \<longrightarrow> status a = ''false_positive'' \<and> status a \<noteq> ''new'' \<and>
                  description a = ''No '' @ lower w (det_name det) @ '' detected in the video.'') \<and>
               (C \<noteq> [] \<longrightarrow> status a = ''new'')"
    by blast
  then show "let C = cleared_confidences det thr iou sz 5 0 frames
     in \<exists>p a. process_video w mm cams path key thr iou sz camera_id = Inr (p, a) \<and>
               (C = [] \<longrightarrow> status a = ''false_positive'' \<and> status a \<noteq> ''new'' \<and>
                  description a = ''No '' @ lower w (det_name det) @ '' detected in the video.'') \<and>
               (C \<noteq> [] \<longrightarrow> status a = ''new'')"
    unfolding Let_def C_def .
next
  assume cm: "cams camera_id' = Some cam" and d: "get_detector mm (Some key) = Inr det"
    and v: "video_capture w (get_stream_url cam) = Some frames'" and fr: "frame_rate cam \<noteq> 0"
  define C where "C = cleared_confidences det (conf_threshold (get_detector_config mm key))
               (iou_threshold (get_detector_config mm key))
               (image_size (get_detector_config mm key)) (frame_rate cam) 0
               (frames_read (elapsed w) duration frame_limit 0 frames')"
  have "\<exists>p st. fst (process_camera_stream w mm cams camera_id' key duration frame_limit)
                  = Inr (p, finish_run w det p ''the camera stream.'' st) \<and>
           snd (snd (process_camera_stream w mm cams camera_id' key duration frame_limit))
                  = Some (finish_run w det p ''the camera stream.'' st) \<and>
           confidence (alert st) = Max (insert 0 (set C)) \<and>
           (0 < detection_count st \<longleftrightarrow> C \<noteq> []) \<and>
           status (alert st) = ''new''"
    by (rule process_camera_stream_run) (fact cm d v fr C_def)+
  then obtain p st where
    r: "fst (process_camera_stream w mm cams camera_id' key duration frame_limit)
          = Inr (p, finish_run w det p ''the camera stream.'' st)" and
    n: "(0 < detection_count st) = (C \<noteq> [])" and
    s: "status (alert st) = ''new''"
    by blast
  have "(C = [] \<longrightarrow> status (finish_run w det p ''the camera stream.'' st) = ''false_positive'' \<and>
           status (finish_run w det p ''the camera stream.'' st) \<noteq> ''new'' \<and>
           description (finish_run w det p ''the camera stream.'' st)
             = ''No '' @ lower w (det_name det) @ '' detected in the camera stream.'') \<and>
        (C \<noteq> [] \<longrightarrow> status (finish_run w det p ''the camera stream.'' st) = ''new'')"
    using n s by (simp add: finish_run_status finish_run_description)
  with r have "\<exists>p a. fst (process_camera_stream w mm cams camera_id' key duration frame_limit)
                 = Inr (p, a) \<and>
               (C = [] \<longrightarrow> status a = ''false_positive'' \<and> status a \<noteq> ''new'' \<and>
                  description a =
                    ''No '' @ lower w (det_name det) @ '' detected in the camera stream.'') \<and>
               (C \<noteq> [] \<longrightarrow> status a = ''new'')"
    by blast
  then show "let config = get_detector_config mm key;
         C = cleared_confidences det (conf_threshold config) (iou_threshold config)
               (image_size config) (frame_rate cam) 0
               (frames_read (elapsed w) duration frame_limit 0 frames')
     in \<exists>p a. fst (process_camera_stream w mm cams camera_id' key duration frame_limit)
                 = Inr (p, a) \<and>
               (C = [] \<longrightarrow> status a = ''false_positive'' \<and> status a \<noteq> ''new'' \<and>
                  description a =
                    ''No '' @ lower w (det_name det) @ '' detected in the camera stream.'') \<and>
               (C \<noteq> [] \<longrightarrow> status a = ''new'')"
    unfolding Let_def C_def .
qed


lemma completed_run_disposition_examples:
  "get_detector example_manager (Some ''fire_smoke'') = Inr example_detector \<and>
   video_capture example_world ''quiet.mp4'' = Some [1, 2, 3, 4] \<and>
   cleared_confidences example_detector 0.25 0.45 640 5 0 [1, 2, 3, 4] = [] \<and>
   (\<exists>p a. process_video example_world example_manager example_cameras ''quiet.mp4''
              ''fire_smoke'' 0.25 0.45 640 (Some 1) = Inr (p, a) \<and>
          status a = ''false_positive'' \<and>
          description a = ''No Fire and Smoke detected in the video.'') \<and>
   video_capture example_world ''clip.mp4''
     = Some [1, 2, 3, 4, 5, 6, 7, 8, 9, 10, 11, 12, 13, 14, 15] \<and>
   cleared_confidences example_detector 0.25 0.45 640 5 0
     [1, 2, 3, 4, 5, 6, 7, 8, 9, 10, 11, 12, 13, 14, 15] \<noteq> [] \<and>
   (\<exists>p a. process_video example_world example_manager example_cameras ''clip.mp4''
              ''fire_smoke'' 0.25 0.45 640 (Some 1) = Inr (p, a) \<and> status a = ''new'') \<and>
   example_cameras 2 = Some (example_camera 2 ''rtsp://cam/2'') \<and>
   video_capture example_world (get_stream_url (example_camera 2 ''rtsp://cam/2''))
     = Some [1, 2, 3, 4] \<and>
   frame_rate (example_camera 2 ''rtsp://cam/2'') \<noteq> 0 \<and>
   (\<exists>p a. fst (process_camera_stream example_world example_manager example_cameras 2
                  ''fire_smoke'' 60 10) = Inr (p, a) \<and>
          status a = ''false_positive'' \<and>
          description a = ''No Fire and Smoke detected in the camera stream.'') \<and>
   example_cameras 1 = Some (example_camera 1 ''rtsp://cam/1'') \<and>
   video_capture example_world (get_stream_url (example_camera 1 ''rtsp://cam/1''))
     = Some [1, 2, 3, 4, 5, 6, 7, 8, 9, 10, 11, 12] \<and>
   (\<exists>p a. fst (process_camera_stream example_world example_manager example_cameras 1
                  ''fire_smoke'' 60 10) = Inr (p, a) \<and> status a = ''new'')"
proof -
  note Q = completed_run_disposition
    [where mm = example_manager and key = "''fire_smoke''" and det = example_detector
       and w = example_world and path = "''quiet.mp4''" and frames = "[1, 2, 3, 4]"
       and thr = "0.25" and iou = "0.45" and sz = 640 and cams = example_cameras
       and camera_id = "Some 1" and i = 1 and c = "example_camera 1 ''rtsp://cam/1''"
       and camera_id' = 2
       and cam = "example_camera 2 ''rtsp://cam/2''" and frames' = "[1, 2, 3, 4]"
       and duration = 60 and frame_limit = 10]
  note D = completed_run_disposition
    [where mm = example_manager and key = "''fire_smoke''" and det = example_detector
       and w = example_world and path = "''clip.mp4''"
       and frames = "[1, 2, 3, 4, 5, 6, 7, 8, 9, 10, 11, 12, 13, 14, 15]"
       and thr = "0.25" and iou = "0.45" and sz = 640 and cams = example_cameras
       and camera_id = "Some 1" and i = 1 and c = "example_camera 1 ''rtsp://cam/1''"
       and camera_id' = 1
       and cam = "example_camera 1 ''rtsp://cam/1''"
       and frames' = "[1, 2, 3, 4, 5, 6, 7, 8, 9, 10, 11, 12]"
       and duration = 60 and frame_limit = 10]
  have one: "(1::nat) \<noteq> 0" by simp
  have q1: "\<exists>p a. process_video example_world example_manager example_cameras ''quiet.mp4''
              ''fire_smoke'' 0.25 0.45 640 (Some 1) = Inr (p, a) \<and>
          status a = ''false_positive'' \<and>
          description a = ''No Fire and Smoke detected in the video.''"
    using Q [THEN conjunct1, rule_format, OF ex_det ex_quiet refl one ex_cam1]
    by (simp only: ex_cleared_quiet Let_def ex_lower ex_name) auto
  have q2: "\<exists>p a. fst (process_camera_stream example_world example_manager example_cameras 2
                  ''fire_smoke'' 60 10) = Inr (p, a) \<and>
          status a = ''false_positive'' \<and>
          description a = ''No Fire and Smoke detected in the camera stream.''"
    using Q [THEN conjunct2]
    by (simp only: ex_det ex_cam2 ex_url2 ex_stream2 ex_rate ex_cfg ex_read2 ex_cleared_quiet
          Let_def ex_lower ex_name detector_config.simps) auto
  have d1: "\<exists>p a. process_video example_world example_manager example_cameras ''clip.mp4''
              ''fire_smoke'' 0.25 0.45 640 (Some 1) = Inr (p, a) \<and> status a = ''new''"
    using D [THEN conjunct1, rule_format, OF ex_det ex_clip refl one ex_cam1]
    by (simp only: ex_cleared_clip Let_def) simp
  have d2: "\<exists>p a. fst (process_camera_stream example_world example_manager example_cameras 1
                  ''fire_smoke'' 60 10) = Inr (p, a) \<and> status a = ''new''"
    using D [THEN conjunct2]
    by (simp only: ex_det ex_cam1 ex_url1 ex_stream1 ex_rate ex_cfg ex_read1 ex_cleared_1
          Let_def detector_config.simps) simp
  show ?thesis
    using q1 q2 d1 d2
    by (simp only: ex_det ex_quiet ex_clip ex_cleared_quiet ex_cleared_clip ex_cam1 ex_cam2
          ex_url1 ex_url2 ex_stream1 ex_stream2 ex_rate) simp
qed

text \<open>
  C3.  The frame rate of a camera is an integer field that the model does not bound
  (cameras/models.py; the serializer passes it on as it is).  For a camera with frame
  rate 0 whose stream opens and delivers a frame, \<^verbatim>\<open>frame_count % camera.frame_rate\<close>
  raises \<^verbatim>\<open>ZeroDivisionError\<close> at the first frame, outside the \<^verbatim>\<open>try\<close> of the
  frame, after the alert was created.  The run ends with that exception: no frame was
  scored, no detection cleared the threshold, and the row of the alert is left with the
  status \<^verbatim>\<open>new\<close>, not \<^verbatim>\<open>false_positive\<close>.
\<close>

theorem zero_rate_stream_run_stays_new:
  "example_cameras_zero_rate 2 = Some ((example_camera 2 ''rtsp://cam/2'')\<lparr>frame_rate := 0\<rparr>) \<and>
   video_capture example_world
     (get_stream_url ((example_camera 2 ''rtsp://cam/2'')\<lparr>frame_rate := 0\<rparr>)) = Some [1, 2, 3, 4] \<and>
   cleared_confidences example_detector 0.25 0.45 640 0 0
     (frames_read (elapsed example_world) 60 10 0 [1, 2, 3, 4]) = [] \<and>
   fst (process_camera_stream example_world example_manager example_cameras_zero_rate 2
          ''fire_smoke'' 60 10) = Inl ZeroDivisionError \<and>
   (\<exists>a. snd (snd (process_camera_stream example_world example_manager example_cameras_zero_rate 2
                     ''fire_smoke'' 60 10)) = Some a \<and>
        status a = ''new'' \<and> status a \<noteq> ''false_positive'' \<and> confidence a = 0)"
proof -
  let ?cam = "(example_camera 2 ''rtsp://cam/2'')\<lparr>frame_rate := 0\<rparr>"
  let ?run = "process_camera_stream example_world example_manager example_cameras_zero_rate 2
                ''fire_smoke'' 60 10"
  have cm: "example_cameras_zero_rate 2 = Some ?cam"
    by (simp add: example_cameras_zero_rate_def)
  have u: "get_stream_url ?cam = ''rtsp://cam/2''"
    by (simp add: get_stream_url_def example_camera_def truthy_def)
  have v: "video_capture example_world (get_stream_url ?cam) = Some [1, 2, 3, 4]"
    unfolding u by (rule ex_stream2)
  have fr: "frame_rate ?cam = 0" by simp
  have "\<exists>a. snd (snd ?run) = Some a \<and> confidence a = 0 \<and>
          ([1, 2, 3, 4 :: nat] \<noteq> [] \<longrightarrow> fst ?run = Inl ZeroDivisionError \<and> status a = ''new'')"
    by (rule process_camera_stream_zero_rate) (fact cm ex_det v fr)+
  then have r: "fst ?run = Inl ZeroDivisionError"
    and a: "\<exists>a. snd (snd ?run) = Some a \<and> status a = ''new'' \<and>
              status a \<noteq> ''false_positive'' \<and> confidence a = 0"
    by auto
  have c: "cleared_confidences example_detector 0.25 0.45 640 0 0
             (frames_read (elapsed example_world) 60 10 0 [1, 2, 3, 4]) = []"
    by (rule cleared_zero_stride)
  show ?thesis using cm v c r a by blast
qed

section \<open>Quiet hours\<close>

text \<open>
  With quiet hours enabled: an alert that is not critical, at a time for which the
  handler's test of the window holds, has all three channels switched off; a critical
  alert keeps every channel that was eligible; and at the other times the eligibility is
  unchanged.  The test is \<open>in_quiet_hours\<close>: for start \<open>\<le>\<close> end the times from start to
  end, both included; for start after end the times after the start or before the end,
  without the two bounds, since the handler tests \<^verbatim>\<open>not (end <= now <= start)\<close>.
\<close>

lemma quiet_hours_suppress_unless_critical:
  "quiet_hours_enabled ns \<longrightarrow>
     (in_quiet_hours ns t \<and> severity a \<noteq> ''critical'' \<longrightarrow>
        should_send ns t a = (False, False, False)) \<and>
     (severity a = ''critical'' \<longrightarrow> should_send ns t a = channel_eligibility ns a) \<and>
     (\<not> in_quiet_hours ns t \<longrightarrow> should_send ns t a = channel_eligibility ns a)"
  by (auto simp add: should_send_def quiet_hours_filter_def in_quiet_hours_def Let_def not_le)

lemma quiet_hours_suppress_unless_critical_examples:
  "quiet_hours_enabled example_settings \<and>
   in_quiet_hours example_settings (23, 30, 0, 0) \<and>
   severity (example_alert ''fire_smoke'' ''medium'') \<noteq> ''critical'' \<and>
   should_send example_settings (23, 30, 0, 0) (example_alert ''fire_smoke'' ''medium'')
     = (False, False, False) \<and>
   severity (example_alert ''fire_smoke'' ''critical'') = ''critical'' \<and>
   should_send example_settings (23, 30, 0, 0) (example_alert ''fire_smoke'' ''critical'')
     = (True, False, True) \<and>
   \<not> in_quiet_hours example_settings (12, 30, 0, 0) \<and>
   should_send example_settings (12, 30, 0, 0) (example_alert ''fire_smoke'' ''medium'')
     = (True, False, False) \<and>
   in_quiet_hours (example_settings\<lparr>quiet_hours_start := (13, 0, 0, 0),
                                     quiet_hours_end := (14, 0, 0, 0)\<rparr>) (13, 30, 0, 0) \<and>
   should_send (example_settings\<lparr>quiet_hours_start := (13, 0, 0, 0),
                                  quiet_hours_end := (14, 0, 0, 0)\<rparr>) (13, 30, 0, 0)
     (example_alert ''fire_smoke'' ''medium'') = (False, False, False)"
proof -
  have m: "severity (example_alert ''fire_smoke'' ''medium'') \<noteq> ''critical''"
    and c: "severity (example_alert ''fire_smoke'' ''critical'') = ''critical''"
    by (simp_all add: example_alert_def)
  have e: "quiet_hours_enabled (example_settings\<lparr>quiet_hours_start := (13, 0, 0, 0),
                                     quiet_hours_end := (14, 0, 0, 0)\<rparr>)"
    by (simp add: ex_qh)
  have 1: "should_send example_settings (23, 30, 0, 0) (example_alert ''fire_smoke'' ''medium'')
     = (False, False, False)"
    using quiet_hours_suppress_unless_critical
      [of example_settings "(23, 30, 0, 0)" "example_alert ''fire_smoke'' ''medium''"]
      ex_qh(1) ex_overnight(1) m by blast
  have 2: "should_send example_settings (23, 30, 0, 0) (example_alert ''fire_smoke'' ''critical'')
     = (True, False, True)"
    using quiet_hours_suppress_unless_critical
      [of example_settings "(23, 30, 0, 0)" "example_alert ''fire_smoke'' ''critical''"]
      ex_qh(1) c ex_elig_critical by simp
  have 3: "should_send example_settings (12, 30, 0, 0) (example_alert ''fire_smoke'' ''medium'')
     = (True, False, False)"
    using quiet_hours_suppress_unless_critical
      [of example_settings "(12, 30, 0, 0)" "example_alert ''fire_smoke'' ''medium''"]
      ex_qh(1) ex_overnight(3) ex_elig_medium by simp
  have 4: "should_send (example_settings\<lparr>quiet_hours_start := (13, 0, 0, 0),
                                  quiet_hours_end := (14, 0, 0, 0)\<rparr>) (13, 30, 0, 0)
     (example_alert ''fire_smoke'' ''medium'') = (False, False, False)"
    using quiet_hours_suppress_unless_critical
      [of "example_settings\<lparr>quiet_hours_start := (13, 0, 0, 0),
                             quiet_hours_end := (14, 0, 0, 0)\<rparr>" "(13, 30, 0, 0)"
          "example_alert ''fire_smoke'' ''medium''"]
      e ex_sameday m by blast
  show ?thesis using ex_qh(1) ex_overnight(1,3) ex_sameday m c 1 2 3 4 by blast
qed

text \<open>
  C4 at the bounds of an overnight window.  With quiet hours from 22:00 to 07:00 and a
  medium alert for which e-mail is eligible, the handler still sends at 22:00:00 and at
  07:00:00 exactly: the claim has these times inside the window, as the handler itself
  has the two bounds of a same-day window (13:00 to 14:00 in the example), and one
  microsecond inside the overnight window the channels are switched off.
\<close>

theorem quiet_hours_overnight_bounds_not_suppressed:
  "quiet_hours_enabled example_settings \<and>
   quiet_hours_start example_settings = (22, 0, 0, 0) \<and>
   quiet_hours_end example_settings = (7, 0, 0, 0) \<and>
   severity (example_alert ''fire_smoke'' ''medium'') = ''medium'' \<and>
   channel_eligibility example_settings (example_alert ''fire_smoke'' ''medium'')
     = (True, False, False) \<and>
   should_send example_settings (22, 0, 0, 0) (example_alert ''fire_smoke'' ''medium'')
     = (True, False, False) \<and>
   should_send example_settings (7, 0, 0, 0) (example_alert ''fire_smoke'' ''medium'')
     = (True, False, False) \<and>
   should_send example_settings (22, 0, 0, 1) (example_alert ''fire_smoke'' ''medium'')
     = (False, False, False) \<and>
   should_send example_settings (6, 59, 59, 999999) (example_alert ''fire_smoke'' ''medium'')
     = (False, False, False) \<and>
   should_send (example_settings\<lparr>quiet_hours_start := (13, 0, 0, 0),
                                  quiet_hours_end := (14, 0, 0, 0)\<rparr>) (13, 0, 0, 0)
     (example_alert ''fire_smoke'' ''medium'') = (False, False, False) \<and>
   should_send (example_settings\<lparr>quiet_hours_start := (13, 0, 0, 0),
                                  quiet_hours_end := (14, 0, 0, 0)\<rparr>) (14, 0, 0, 0)
     (example_alert ''fire_smoke'' ''medium'') = (False, False, False)"
  by (simp add: should_send_def quiet_hours_filter_def ex_qh ex_elig_medium ex_alert_fields
        Let_def channel_eligibility_def severity_filter_def type_toggles_def rank_get_def
        severity_rank_def example_settings_def)

section \<open>Channel eligibility\<close>

text \<open>
  C5.  After lines 29--65 a channel is eligible exactly when it is enabled globally, its
  switch for the alert's type is on, and the rank of the alert's severity is at least
  the rank of the channel's minimum severity, with the ranks low 1, medium 2, high 3,
  critical 4 (a severity outside the four counts as the default of the
  \<^verbatim>\<open>.get\<close>, an alert type outside the five has no switch).  A channel that is
  disabled globally is not eligible and is not selected for dispatch.
\<close>

theorem channel_eligibility_rule:
  "(pick ch (channel_eligibility ns a) \<longleftrightarrow>
      channel_enabled ns ch \<and> type_toggle ns ch (alert_type a) = Some True \<and>
      min_severity_rank ns ch \<le> rank_get (severity a) 2) \<and>
   severity_rank = [''low'' \<mapsto> 1, ''medium'' \<mapsto> 2, ''high'' \<mapsto> 3, ''critical'' \<mapsto> 4] \<and>
   (\<not> channel_enabled ns ch \<longrightarrow>
      \<not> pick ch (channel_eligibility ns a) \<and> \<not> pick ch (should_send ns t a))"
proof -
  have iff: "pick ch (channel_eligibility ns a) \<longleftrightarrow>
      channel_enabled ns ch \<and> type_toggle ns ch (alert_type a) = Some True \<and>
      min_severity_rank ns ch \<le> rank_get (severity a) 2"
    by (cases ch)
       (auto simp add: channel_eligibility_def severity_filter_def type_toggles_def Let_def)
  have "\<not> channel_enabled ns ch \<longrightarrow> \<not> pick ch (should_send ns t a)"
    using should_send_le [of ch ns t a] iff by blast
  with iff show ?thesis by (simp add: severity_rank_def)
qed

theorem channel_eligibility_rule_witness:
  "\<not> channel_enabled example_settings Sms \<and>
   type_toggle example_settings Sms ''fire_smoke'' = Some True \<and>
   min_severity_rank example_settings Sms \<le> rank_get ''critical'' 2 \<and>
   \<not> pick Sms (channel_eligibility example_settings (example_alert ''fire_smoke'' ''critical'')) \<and>
   \<not> pick Sms (should_send example_settings (12, 30, 0, 0)
                   (example_alert ''fire_smoke'' ''critical'')) \<and>
   channel_enabled example_settings Push \<and>
   type_toggle example_settings Push ''fire_smoke'' = Some True \<and>
   min_severity_rank example_settings Push \<le> rank_get ''critical'' 2 \<and>
   pick Push (channel_eligibility example_settings (example_alert ''fire_smoke'' ''critical'')) \<and>
   type_toggle example_settings Push ''fall'' = Some False \<and>
   \<not> pick Push (channel_eligibility example_settings (example_alert ''fall'' ''critical'')) \<and>
   \<not> min_severity_rank example_settings Push \<le> rank_get ''medium'' 2 \<and>
   \<not> pick Push (channel_eligibility example_settings (example_alert ''fire_smoke'' ''medium''))"
proof -
  have 1: "\<not> pick Sms (channel_eligibility example_settings (example_alert ''fire_smoke'' ''critical'')) \<and>
   \<not> pick Sms (should_send example_settings (12, 30, 0, 0)
                   (example_alert ''fire_smoke'' ''critical''))"
    using channel_eligibility_rule
      [of Sms example_settings "example_alert ''fire_smoke'' ''critical''" "(12, 30, 0, 0)"]
      ex_sms_off(1) by blast
  have 2: "pick Push (channel_eligibility example_settings (example_alert ''fire_smoke'' ''critical''))"
    using channel_eligibility_rule
      [of Push example_settings "example_alert ''fire_smoke'' ''critical''" "(12, 30, 0, 0)"]
      ex_push_on(1,2,3) by (simp add: ex_alert_fields)
  have 3: "\<not> pick Push (channel_eligibility example_settings (example_alert ''fall'' ''critical''))"
    using channel_eligibility_rule
      [of Push example_settings "example_alert ''fall'' ''critical''" "(12, 30, 0, 0)"]
      ex_push_on(4) by (simp add: ex_alert_fields)
  have 4: "\<not> pick Push (channel_eligibility example_settings (example_alert ''fire_smoke'' ''medium''))"
    using channel_eligibility_rule
      [of Push example_settings "example_alert ''fire_smoke'' ''medium''" "(12, 30, 0, 0)"]
      ex_push_on(5) by (simp add: ex_alert_fields)
  show ?thesis using ex_sms_off ex_push_on 1 2 3 4 by blast
qed

section \<open>Dispatch and the notification log\<close>

text \<open>
  C6.  For a created alert whose camera, owner and settings are found, the handler
  writes, for each attempted channel in the order e-mail, SMS, push, a row in state
  \<^verbatim>\<open>pending\<close> and then the same row as \<^verbatim>\<open>sent\<close> with the time, or as
  \<^verbatim>\<open>failed\<close> with the text of the error when the sender raised.  Which channels
  are attempted does not depend on what any sender does: whatever the three senders
  return, every attempted channel gets its pending row and its outcome.  The writes to
  the table themselves are taken to succeed.
\<close>

theorem channel_attempts_are_independent:
  "(created \<longrightarrow> camera a = Some cid \<longrightarrow> cameras env cid = Some cam \<longrightarrow>
    users env (cam_user cam) = Some u \<longrightarrow> settings env (user_id u) = Some ns \<longrightarrow>
      send_alert_notifications env aid a created db =
        db @ attempts env u (notification_title a) (notification_message env cam a) aid
               (attempted u (should_send ns (snd (now env)) a)) (next_pk db) \<and>
      (\<forall>ch\<in>set (attempted u (should_send ns (snd (now env)) a)).
         Insert (new_log u (notification_title a) (notification_message env cam a)
                   (channel_name ch) aid)
           \<in> set (send_alert_notifications env aid a created db))) \<and>
   attempt_writes env u t m aid ch pk =
     [Insert (new_log u t m (channel_name ch) aid),
      Update pk (case send_outcome env u t m ch of
                   None \<Rightarrow> (new_log u t m (channel_name ch) aid)
                              \<lparr>log_status := ''sent'', sent_at := Some (now env)\<rparr>
                 | Some e \<Rightarrow> (new_log u t m (channel_name ch) aid)
                              \<lparr>log_status := ''failed'', error_message := Some (exn_str e)\<rparr>)] \<and>
   log_status (new_log u t m (channel_name ch) aid) = ''pending''"
proof (intro conjI impI)
  assume h: "created" "camera a = Some cid" "cameras env cid = Some cam"
    "users env (cam_user cam) = Some u" "settings env (user_id u) = Some ns"
  show eq: "send_alert_notifications env aid a created db =
        db @ attempts env u (notification_title a) (notification_message env cam a) aid
               (attempted u (should_send ns (snd (now env)) a)) (next_pk db)"
    using h by (simp add: send_alert_notifications_def dispatch_attempts)
  show "\<forall>ch\<in>set (attempted u (should_send ns (snd (now env)) a)).
         Insert (new_log u (notification_title a) (notification_message env cam a)
                   (channel_name ch) aid)
           \<in> set (send_alert_notifications env aid a created db)"
    unfolding eq using attempts_pending by fastforce
next
  show "attempt_writes env u t m aid ch pk =
     [Insert (new_log u t m (channel_name ch) aid),
      Update pk (case send_outcome env u t m ch of
                   None \<Rightarrow> (new_log u t m (channel_name ch) aid)
                              \<lparr>log_status := ''sent'', sent_at := Some (now env)\<rparr>
                 | Some e \<Rightarrow> (new_log u t m (channel_name ch) aid)
                              \<lparr>log_status := ''failed'', error_message := Some (exn_str e)\<rparr>)]"
    by (simp add: attempt_writes_def Let_def)
next
  show "log_status (new_log u t m (channel_name ch) aid) = ''pending''"
    by (simp add: new_log_def)
qed

theorem channel_attempts_are_independent_witness:
  "camera example_critical = Some 1 \<and>
   cameras example_notif_env 1 = Some (example_camera 1 ''rtsp://cam/1'') \<and>
   users example_notif_env (cam_user (example_camera 1 ''rtsp://cam/1'')) = Some example_user \<and>
   settings example_notif_env (user_id example_user) = Some example_settings \<and>
   attempted example_user (should_send example_settings (snd (now example_notif_env))
                             example_critical) = [Email, Push] \<and>
   send_outcome example_notif_env example_user
     (notification_title example_critical)
     (notification_message example_notif_env (example_camera 1 ''rtsp://cam/1'') example_critical)
     Email = Some (Error ''SMTP refused'') \<and>
   send_alert_notifications example_notif_env 5 example_critical True [] =
     [Insert (new_log example_user (notification_title example_critical)
                (notification_message example_notif_env (example_camera 1 ''rtsp://cam/1'')
                   example_critical) ''email'' 5),
      Update 0 ((new_log example_user (notification_title example_critical)
                (notification_message example_notif_env (example_camera 1 ''rtsp://cam/1'')
                   example_critical) ''email'' 5)
                  \<lparr>log_status := ''failed'', error_message := Some ''SMTP refused''\<rparr>),
      Insert (new_log example_user (notification_title example_critical)
                (notification_message example_notif_env (example_camera 1 ''rtsp://cam/1'')
                   example_critical) ''push'' 5),
      Update 1 ((new_log example_user (notification_title example_critical)
                (notification_message example_notif_env (example_camera 1 ''rtsp://cam/1'')
                   example_critical) ''push'' 5)
                  \<lparr>log_status := ''sent'', sent_at := Some (100, (12, 30, 0, 0))\<rparr>)]"
proof -
  have np: "next_pk [] = 0" by (simp add: next_pk_def)
  have so: "send_outcome example_notif_env example_user
     (notification_title example_critical)
     (notification_message example_notif_env (example_camera 1 ''rtsp://cam/1'') example_critical)
     Email = Some (Error ''SMTP refused'')"
    by (simp add: example_notif_env_def)
  have at: "attempted example_user (should_send example_settings (snd (now example_notif_env))
                             example_critical) = [Email, Push]"
    by (simp only: ex_env ex_should ex_attempted)
  have "send_alert_notifications example_notif_env 5 example_critical True [] =
        [] @ attempts example_notif_env example_user (notification_title example_critical)
               (notification_message example_notif_env (example_camera 1 ''rtsp://cam/1'')
                  example_critical) 5
               (attempted example_user
                  (should_send example_settings (snd (now example_notif_env)) example_critical))
               (next_pk [])"
    using channel_attempts_are_independent
      [where created = True and a = example_critical and cid = 1 and env = example_notif_env
         and cam = "example_camera 1 ''rtsp://cam/1''" and u = example_user
         and ns = example_settings and aid = 5 and db = "[]", THEN conjunct1]
      ex_env(1-4) by blast
  then show ?thesis
    using so at by (simp only: ex_env at np ex_attempts append_Nil)
qed

section \<open>Model manager: unknown keys\<close>

text \<open>
  C7.  For a key that is not in the registry, \<open>get_detector\<close> and
  \<open>set_active_detector\<close> both raise \<open>ValueError\<close> (no detector is returned, so
  there is no fall-back to a default one), and the manager after the failed
  \<open>set_active_detector\<close> is the manager before it: the active key is unchanged.
\<close>

theorem unknown_detector_key_rejected:
  "detectors mm k = None \<Longrightarrow>
     get_detector mm (Some k) = Inl (ValueError (''Unknown detector: '' @ k)) \<and>
     fst (set_active_detector mm k) = Inl (ValueError (''Unknown detector: '' @ k)) \<and>
     snd (set_active_detector mm k) = mm \<and>
     active_detector_key (snd (set_active_detector mm k)) = active_detector_key mm"
  by (simp add: get_detector_def set_active_detector_def)

theorem unknown_detector_key_rejected_witness:
  "detectors example_manager ''smoke'' = None \<and>
   get_detector example_manager (Some ''smoke'')
     = Inl (ValueError ''Unknown detector: smoke'') \<and>
   fst (set_active_detector example_manager ''smoke'')
     = Inl (ValueError ''Unknown detector: smoke'') \<and>
   active_detector_key (snd (set_active_detector example_manager ''smoke''))
     = ''fire_smoke''"
proof -
  have h: "detectors example_manager ''smoke'' = None"
    by (simp add: example_manager_def model_manager_init_def)
  have a: "active_detector_key example_manager = ''fire_smoke''"
    by (simp add: example_manager_def model_manager_init_def)
  show ?thesis
    using h a unknown_detector_key_rejected [OF h] by simp
qed

section \<open>An RTSP stream that opens and delivers no frame\<close>




section \<open>The result of a frame capture\<close>

text \<open>
  C9.  For every camera, whatever its type, and whatever the calls into OpenCV, the HTTP
  client and the file system return or raise, \<open>capture_frame\<close> returns a dictionary
  and raises nothing; the dictionary has exactly the keys \<^verbatim>\<open>success\<close>,
  \<^verbatim>\<open>message\<close> and \<^verbatim>\<open>frame\<close>, with a truth value, a text, and a frame or
  \<^verbatim>\<open>None\<close>.
\<close>

theorem capture_frame_uniform_result:
  "\<exists>d. capture_frame env cam = Inr d \<and>
       dom d = {''success'', ''message'', ''frame''} \<and>
       (\<exists>b. d ''success'' = Some (PBool b)) \<and>
       (\<exists>m. d ''message'' = Some (PStr m)) \<and>
       (d ''frame'' = Some PNone \<or> (\<exists>f. d ''frame'' = Some (PFrame f)))"
proof -
  have "\<exists>d. capture_frame env cam = Inr d \<and> uniform_result d"
    unfolding capture_frame_def
  proof (rule try_except_Inr)
    fix d
    assume "(if camera_type cam = ''rtsp'' then capture_rtsp_frame env cam
        else if camera_type cam = ''http'' then capture_http_frame env cam
        else if camera_type cam = ''local'' then capture_local_frame env cam
        else if camera_type cam = ''file'' then capture_file_frame env cam
        else Inr (frame_result False (''Unsupported camera type: '' @ camera_type cam) PNone))
       = Inr d"
    then show "uniform_result d"
      using capture_rtsp_frame_uniform [of env cam] capture_http_frame_uniform [of env cam]
        capture_local_frame_uniform [of env cam] capture_file_frame_uniform [of env cam]
      by (auto simp add: frame_result_uniform split: if_splits)
  next
    fix e
    show "\<exists>d. Inr (frame_result False (''Error capturing frame: '' @ exn_str e) PNone) = Inr d
             \<and> uniform_result d"
      by (simp add: frame_result_uniform)
  qed
  then show ?thesis unfolding uniform_result_def .
qed

theorem capture_frame_uniform_result_witness:
  "capture_frame (example_cv_env True) (example_camera 1 ''rtsp://cam/1'')
     = Inr (frame_result False (''RTSP frame capture error: '' @ no_attribute_url) PNone) \<and>
   capture_frame (example_cv_env True) ((example_camera 1 ''0'')\<lparr>camera_type := ''local''\<rparr>)
     = Inr (frame_result False (''Webcam frame capture error: '' @ no_attribute_url) PNone) \<and>
   (\<exists>d. capture_frame (example_cv_env True) ((example_camera 1 ''0'')\<lparr>camera_type := ''local''\<rparr>)
          = Inr d \<and> dom d = {''success'', ''message'', ''frame''})"
proof -
  have 1: "capture_frame (example_cv_env True) (example_camera 1 ''rtsp://cam/1'')
     = Inr (frame_result False (''RTSP frame capture error: '' @ no_attribute_url) PNone)"
    by (simp add: capture_frame_def capture_rtsp_on_camera try_except_def ex_cam_rtsp)
  have 2: "capture_frame (example_cv_env True) ((example_camera 1 ''0'')\<lparr>camera_type := ''local''\<rparr>)
     = Inr (frame_result False (''Webcam frame capture error: '' @ no_attribute_url) PNone)"
    by (simp add: capture_frame_def capture_local_frame_def device_index_raises
          try_except_def and_then_def)
  have 3: "\<exists>d. capture_frame (example_cv_env True) ((example_camera 1 ''0'')\<lparr>camera_type := ''local''\<rparr>)
          = Inr d \<and> dom d = {''success'', ''message'', ''frame''}"
    using capture_frame_uniform_result
      [of "example_cv_env True" "(example_camera 1 ''0'')\<lparr>camera_type := ''local''\<rparr>"]
    by blast
  show ?thesis using 1 2 3 by blast
qed

section \<open>One transcoder per proxy\<close>



end
